theory Spec2Isabelle
  imports Main "HOL-Library.Char_ord" "HOL-Library.List_Lexorder" "HOL-Library.Sublist"
begin

chapter \<open>The mail digest pipeline: model\<close>

text \<open>
  A shallow embedding of \<^verbatim>\<open>scripts/gmail-digest.py\<close> (the per-message pipeline) and of
  \<^verbatim>\<open>scripts/gmail-digest-all.py\<close> (the all-at-once variant).

  Python's \<^verbatim>\<open>str\<close> is modelled by \<^typ>\<open>string\<close>, a list of characters with codes
  0..255 ordered by code (\<^verbatim>\<open>Char_ord\<close>), lists of them lexicographically
  (\<^verbatim>\<open>List_Lexorder\<close>), which is Python's order on strings of such characters.
  Logging and \<^verbatim>\<open>time.sleep\<close> have no effect on any value and are left out.
\<close>

section \<open>Python string operations used by the scripts\<close>

definition NL :: char where "NL = CHR 0x0A"
definition CR :: char where "CR = CHR 0x0D"

text \<open>\<^verbatim>\<open>str.isspace\<close> (and the regular expression class \<^verbatim>\<open>\s\<close>) on characters below 256.\<close>

definition is_space :: "char \<Rightarrow> bool" where
  "is_space c = ((of_char c :: nat) \<in> {9, 10, 11, 12, 13, 28, 29, 30, 31, 32, 133, 160})"

text \<open>\<^verbatim>\<open>s.strip()\<close>, \<^verbatim>\<open>s.lstrip(chars)\<close> and \<^verbatim>\<open>s.rstrip(chars)\<close>.\<close>

definition strip :: "string \<Rightarrow> string" where
  "strip s = rev (dropWhile is_space (rev (dropWhile is_space s)))"

definition lstrip_chars :: "string \<Rightarrow> string \<Rightarrow> string" where
  "lstrip_chars chars s = dropWhile (\<lambda>c. c \<in> set chars) s"

definition rstrip_chars :: "string \<Rightarrow> string \<Rightarrow> string" where
  "rstrip_chars chars s = rev (dropWhile (\<lambda>c. c \<in> set chars) (rev s))"

text \<open>\<^verbatim>\<open>sep.join(xs)\<close>.\<close>

fun join :: "string \<Rightarrow> string list \<Rightarrow> string" where
  "join sep [] = []"
| "join sep [x] = x"
| "join sep (x # y # ys) = x @ sep @ join sep (y # ys)"

text \<open>\<^verbatim>\<open>s.rfind(c)\<close>: the highest index of \<open>c\<close> in \<open>s\<close>, or -1.\<close>

definition rfind :: "'a \<Rightarrow> 'a list \<Rightarrow> int" where
  "rfind c s =
     (if c \<in> set s then int (length s - 1 - length (takeWhile (\<lambda>x. x \<noteq> c) (rev s))) else - 1)"

section \<open>Seen-id store (\<^verbatim>\<open>load_seen_ids\<close>, \<^verbatim>\<open>save_seen_ids\<close>)\<close>

text \<open>
  The state file is a \<^typ>\<open>string option\<close>: \<open>None\<close> when the file does not exist, its
  content otherwise. The file is opened in text mode, so on reading \<^verbatim>\<open>\r\n\<close> and
  \<^verbatim>\<open>\r\<close> become \<^verbatim>\<open>\n\<close>, and iterating over it yields the lines with their terminator.
  The file system calls themselves are assumed to succeed.
\<close>

fun universal_newlines :: "string \<Rightarrow> string" where
  "universal_newlines [] = []"
| "universal_newlines [c] = [if c = CR then NL else c]"
| "universal_newlines (c # d # s) =
     (if c = CR then (if d = NL then NL # universal_newlines s else NL # universal_newlines (d # s))
      else c # universal_newlines (d # s))"

fun readlines_acc :: "string \<Rightarrow> string \<Rightarrow> string list" where
  "readlines_acc cur [] = (if cur = [] then [] else [cur])"
| "readlines_acc cur (c # cs) =
     (if c = NL then (cur @ [c]) # readlines_acc [] cs else readlines_acc (cur @ [c]) cs)"

definition readlines :: "string \<Rightarrow> string list" where
  "readlines content = readlines_acc [] (universal_newlines content)"

text \<open>
  \<^verbatim>\<open>
  def load_seen_ids():
      if not os.path.exists(STATE_FILE):
          return set()
      with open(STATE_FILE) as f:
          return {line.strip() for line in f if line.strip()}
  \<close>
\<close>

definition load_seen_ids :: "string option \<Rightarrow> string set" where
  "load_seen_ids state_file =
     (case state_file of
        None \<Rightarrow> {}
      | Some content \<Rightarrow> set [strip line. line \<leftarrow> readlines content, strip line \<noteq> []])"

text \<open>
  \<^verbatim>\<open>
  def save_seen_ids(ids):
      recent = sorted(ids)[-500:]
      os.makedirs(os.path.dirname(STATE_FILE), exist_ok=True)
      with open(STATE_FILE, 'w') as f:
          f.write('\n'.join(recent) + '\n')
  \<close>
  \<open>ids\<close> is a Python set: \<open>sorted\<close> lists it in string order. \<open>recent_ids\<close> is the
  local variable \<^verbatim>\<open>recent\<close>; \<open>save_seen_ids\<close> returns the state file it leaves.
\<close>

definition recent_ids :: "string set \<Rightarrow> string list" where
  "recent_ids ids = (let s = sorted_list_of_set ids in drop (length s - 500) s)"

definition save_seen_ids :: "string set \<Rightarrow> string option" where
  "save_seen_ids ids = Some (join [NL] (recent_ids ids) @ [NL])"



section \<open>The outside world\<close>

text \<open>
  Exceptions are values. \<open>TimeoutExpired\<close> is raised by \<^verbatim>\<open>subprocess.run\<close>,
  \<open>RequestError\<close> stands for any exception of \<^verbatim>\<open>requests\<close> (connection failure,
  timeout), \<open>DecodeError\<close> for \<^verbatim>\<open>binascii.Error\<close>, \<open>ValueError\<close> is raised by
  \<^verbatim>\<open>urlparse\<close>.
\<close>

datatype error = TimeoutExpired | RequestError | DecodeError | ValueError

text \<open>
  A request to the chat endpoint: the \<^verbatim>\<open>text\<close> field of the JSON body and its
  \<^verbatim>\<open>parse_mode\<close> field when there is one.
\<close>

record tg_request =
  tg_text :: string
  tg_parse_mode :: "string option"

datatype provider = Gemini | DeepSeek

text \<open>
  What a run does to the outside world, in order: the requests posted to the chat
  endpoint, the requests posted to the AI providers, and the threads for which the
  \<^verbatim>\<open>thread modify ... --remove UNREAD\<close> command was issued.
\<close>

record world =
  tg_log :: "tg_request list"
  ai_log :: "provider list"
  read_log :: "string list"

text \<open>
  The JSON that \<^verbatim>\<open>gog gmail thread ... --json --results-only\<close> prints, as far as the
  scripts read it: \<^verbatim>\<open>{thread: {messages: [{payload: {headers, mimeType, body: {data},
  parts}, snippet}]}}\<close>. The scripts read every key with \<^verbatim>\<open>.get(key, default)\<close>, so a
  missing key and a key that holds the default are one value here: a missing string is
  \<open>''''\<close>, a missing list is \<open>[]\<close>, a missing \<^verbatim>\<open>body\<close> has the data \<open>''''\<close>. Two keys
  are tested for presence: \<^verbatim>\<open>'parts' in payload\<close>, kept as an option, and
  \<^verbatim>\<open>'parts' in part\<close>, where a missing list and an empty one give the same loop. The
  model is typed: a document in which a key holds a value of another JSON type is outside
  it.
\<close>

datatype part = Part (part_mimeType: string) (part_data: string) (part_parts: "part list")

record header =
  hdr_name :: string
  hdr_value :: string

record payload =
  payload_headers :: "header list"
  payload_mimeType :: string
  payload_data :: string
  payload_parts :: "part list option"

record message =
  msg_payload :: payload
  msg_snippet :: string

text \<open>An item of the search result, and the dictionary that \<^verbatim>\<open>get_email_body\<close>
  returns.\<close>

record email_meta =
  meta_id :: string
  meta_subject :: string

record email_data =
  e_from :: string
  e_subject :: string
  e_date :: string
  e_body :: string
  e_snippet :: string

text \<open>The response of \<^verbatim>\<open>requests.get\<close> to an article URL: status code,
  \<^verbatim>\<open>Content-Type\<close> header (\<open>''''\<close> when missing) and text.\<close>

record http_response =
  resp_status :: nat
  resp_content_type :: string
  resp_text :: string

text \<open>
  The configuration and everything the scripts call outside themselves. Each is a
  function of its arguments; an exception is an \<open>Inl\<close>.
  \<^item> \<open>gog args\<close>: the exit code and the standard output of the mail command line, or
    \<open>TimeoutExpired\<close>.
  \<^item> \<open>json_loads raw\<close>: the \<^verbatim>\<open>thread.messages\<close> list of the parsed document, \<open>None\<close> when
    \<^verbatim>\<open>json.loads\<close> raises.
  \<^item> \<open>b64decode\<close>: \<^verbatim>\<open>base64.urlsafe_b64decode(data).decode('utf-8', errors='replace')\<close>.
  \<^item> \<open>html2text\<close>: \<^verbatim>\<open>h2t.handle\<close>.
  \<^item> \<open>medium_fetch url\<close>: exit code and standard output of the helper process.
  \<^item> \<open>gemini_post prompt\<close>: status code and, when the body parses, for each candidate the
    \<^verbatim>\<open>text\<close> of each of its parts. \<open>deepseek_post prompt\<close>: status code and the
    \<^verbatim>\<open>message.content\<close> of each choice.
  \<^item> \<open>telegram_post req\<close>: the status code of the chat endpoint.
\<close>

record env =
  account :: string
  bot_token :: string
  gemini_key :: string
  deepseek_key :: string
  gog :: "string list \<Rightarrow> error + int \<times> string"
  json_loads :: "string \<Rightarrow> message list option"
  b64decode :: "string \<Rightarrow> error + string"
  html2text :: "string \<Rightarrow> string"
  medium_fetch :: "string \<Rightarrow> error + int \<times> string"
  http_get :: "string \<Rightarrow> error + http_response"
  gemini_post :: "string \<Rightarrow> error + nat \<times> string list list option"
  deepseek_post :: "string \<Rightarrow> error + nat \<times> string list option"
  telegram_post :: "tg_request \<Rightarrow> error + nat"

text \<open>
  The literals of \<^verbatim>\<open>gmail-digest.py\<close> that hold characters above 255 (Chinese text,
  emoji) cannot be written as a \<^typ>\<open>string\<close>; they are parameters, and every statement
  holds for all their values.
  \<^item> \<open>lit_prompt_head\<close>: the prompt from its start to the label of the sender, inclusive;
  \<^item> \<open>lit_prompt_subject\<close>, \<open>lit_prompt_date\<close>, \<open>lit_prompt_body\<close>: the newline and label
    before the subject, the date and the body;
  \<^item> \<open>lit_prompt_articles\<close>: the heading of the articles; \<open>lit_article\<close>: the text between
    the opening bracket and the number of an article;
  \<^item> \<open>lit_mail\<close>, \<open>lit_person\<close>: the two emoji of a summary notification;
  \<^item> \<open>lit_raw_head\<close>: the raw notification from its start to the label of the sender,
    inclusive; \<open>lit_raw_subject\<close>: the label of the subject.
\<close>

record literals =
  lit_prompt_head :: string
  lit_prompt_subject :: string
  lit_prompt_date :: string
  lit_prompt_body :: string
  lit_prompt_articles :: string
  lit_article :: string
  lit_mail :: string
  lit_person :: string
  lit_raw_head :: string
  lit_raw_subject :: string

section \<open>The mail command line (\<^verbatim>\<open>run_gog\<close>)\<close>

text \<open>
  \<^verbatim>\<open>
  def run_gog(args, timeout=30):
      result = subprocess.run(['gog'] + args, capture_output=True, text=True,
                              timeout=timeout, env=env)
      if result.returncode != 0:
          log.warning('gog error: %s', result.stderr[:200])
      return result.stdout
  \<close>
  The exit code is logged and not returned: the caller gets the standard output whatever
  the exit code is.
\<close>

definition run_gog :: "env \<Rightarrow> string list \<Rightarrow> error + string" where
  "run_gog env args =
     (case gog env args of
        Inl e \<Rightarrow> Inl e
      | Inr (returncode, stdout) \<Rightarrow> Inr stdout)"

section \<open>Notifier of the all-at-once variant (\<^verbatim>\<open>gmail-digest-all.py\<close>, \<^verbatim>\<open>send_tg\<close>)\<close>

text \<open>
  The loop that cuts a long text into parts:
  \<^verbatim>\<open>
  parts = []
  while text:
      if len(text) <= 4000:
          parts.append(text)
          break
      cut = text[:4000].rfind('\n')
      if cut < 2000:
          cut = 4000
      parts.append(text[:cut])
      text = text[cut:].lstrip('\n')
  \<close>
\<close>

definition cut_point :: "string \<Rightarrow> nat" where
  "cut_point text = (let cut = rfind NL (take 4000 text) in if cut < 2000 then 4000 else nat cut)"

lemma cut_point_pos: "0 < cut_point text"
  by (simp add: cut_point_def Let_def)

function split_parts :: "string \<Rightarrow> string list" where
  "split_parts text =
     (if text = [] then []
      else if length text \<le> 4000 then [text]
      else take (cut_point text) text
             # split_parts (lstrip_chars [NL] (drop (cut_point text) text)))"
  by pat_completeness auto
termination
proof (relation "measure length")
  show "wf (measure length)" by simp
next
  fix t :: string
  assume "t \<noteq> []"
  have "length (lstrip_chars [NL] (drop (cut_point t) t)) \<le> length (drop (cut_point t) t)"
    unfolding lstrip_chars_def by (rule length_dropWhile_le)
  also have "\<dots> < length t" using cut_point_pos[of t] \<open>t \<noteq> []\<close> by simp
  finally show "(lstrip_chars [NL] (drop (cut_point t) t), t) \<in> measure length" by simp
qed

declare split_parts.simps [simp del]

text \<open>
  \<^verbatim>\<open>
  def send_tg(text):
      if len(text) > 4000:
          parts = ...
          for i, part in enumerate(parts):
              requests.post(..., json={'chat_id': CHAT_ID, 'text': part,
                                       'disable_web_page_preview': True}, timeout=10)
          return True
      resp = requests.post(..., json={'chat_id': CHAT_ID, 'text': text, ...}, timeout=10)
      return resp.status_code == 200
  \<close>
  The endpoint is a parameter: \<open>post req\<close> is the status code of the response, or the
  exception that \<^verbatim>\<open>requests.post\<close> raises. Nothing catches it here, so it ends the
  run; the request is in the log of the world either way.
\<close>

fun post_parts :: "(tg_request \<Rightarrow> error + nat) \<Rightarrow> string list \<Rightarrow> world \<Rightarrow> (error + unit) \<times> world" where
  "post_parts post [] w = (Inr (), w)"
| "post_parts post (part # parts) w =
     (let req = \<lparr>tg_text = part, tg_parse_mode = None\<rparr>;
          w' = w\<lparr>tg_log := tg_log w @ [req]\<rparr>
      in case post req of
           Inl e \<Rightarrow> (Inl e, w')
         | Inr status \<Rightarrow> post_parts post parts w')"

definition send_tg_all :: "(tg_request \<Rightarrow> error + nat) \<Rightarrow> string \<Rightarrow> world \<Rightarrow> (error + bool) \<times> world" where
  "send_tg_all post text w =
     (if length text > 4000 then
        (case post_parts post (split_parts text) w of
           (Inl e, w') \<Rightarrow> (Inl e, w')
         | (Inr u, w') \<Rightarrow> (Inr True, w'))
      else
        (let req = \<lparr>tg_text = text, tg_parse_mode = None\<rparr>;
             w' = w\<lparr>tg_log := tg_log w @ [req]\<rparr>
         in case post req of
              Inl e \<Rightarrow> (Inl e, w')
            | Inr status \<Rightarrow> (Inr (status = 200), w')))"

section \<open>Notifier of the per-message pipeline (\<^verbatim>\<open>gmail-digest.py\<close>, \<^verbatim>\<open>send_tg\<close>)\<close>

text \<open>
  \<^verbatim>\<open>
  def send_tg(text):
      if not BOT_TOKEN:
          return False
      if len(text) > 4000:
          text = text[:3997] + '...'
      try:
          resp = requests.post(..., json={'chat_id': CHAT_ID, 'text': text,
                               'parse_mode': 'HTML', ...}, timeout=10)
          if resp.status_code == 200:
              return True
          resp2 = requests.post(..., json={'chat_id': CHAT_ID, 'text': text, ...}, timeout=10)
          return resp2.status_code == 200
      except Exception as e:
          return False
  \<close>
\<close>

definition send_tg :: "string \<Rightarrow> (tg_request \<Rightarrow> error + nat) \<Rightarrow> string \<Rightarrow> world \<Rightarrow> bool \<times> world" where
  "send_tg token post text0 w =
     (if token = [] then (False, w)
      else
        let text = (if length text0 > 4000 then take 3997 text0 @ ''...'' else text0);
            req = \<lparr>tg_text = text, tg_parse_mode = Some ''HTML''\<rparr>;
            w1 = w\<lparr>tg_log := tg_log w @ [req]\<rparr>
        in case post req of
             Inl e \<Rightarrow> (False, w1)
           | Inr status \<Rightarrow>
               if status = 200 then (True, w1)
               else
                 let req2 = \<lparr>tg_text = text, tg_parse_mode = None\<rparr>;
                     w2 = w1\<lparr>tg_log := tg_log w1 @ [req2]\<rparr>
                 in case post req2 of
                      Inl e \<Rightarrow> (False, w2)
                    | Inr status2 \<Rightarrow> (status2 = 200, w2))"

text \<open>Two chat endpoints: one accepts every request with status 200, one rejects every
  request with status 400. The world before a run.\<close>

definition accept_all :: "tg_request \<Rightarrow> error + nat" where
  "accept_all req = Inr 200"

definition reject_all :: "tg_request \<Rightarrow> error + nat" where
  "reject_all req = Inr 400"

definition world0 :: world where
  "world0 = \<lparr>tg_log = [], ai_log = [], read_log = []\<rparr>"

text \<open>A payload of 9000 characters: two lines of 3000 and 5999 letters.\<close>

definition payload_9000 :: string where
  "payload_9000 = replicate 3000 (CHR ''a'') @ NL # replicate 5999 (CHR ''b'')"

section \<open>URL extractor and filter (\<^verbatim>\<open>is_tracking_url\<close>, \<^verbatim>\<open>extract_article_urls\<close>)\<close>

text \<open>\<^verbatim>\<open>s.lower()\<close> on characters below 256; \<^verbatim>\<open>pat in s\<close>; \<^verbatim>\<open>s.startswith(p)\<close>;
  \<^verbatim>\<open>s.endswith(p)\<close>.\<close>

definition lower_char :: "char \<Rightarrow> char" where
  "lower_char c =
     (let n = of_char c :: nat
      in if (65 \<le> n \<and> n \<le> 90) \<or> (192 \<le> n \<and> n \<le> 222 \<and> n \<noteq> 215) then char_of (n + 32) else c)"

definition lower :: "string \<Rightarrow> string" where
  "lower s = map lower_char s"

definition startswith :: "string \<Rightarrow> string \<Rightarrow> bool" where
  "startswith s p = (take (length p) s = p)"

definition endswith :: "string \<Rightarrow> string \<Rightarrow> bool" where
  "endswith s p = (drop (length s - length p) s = p)"

fun substring :: "string \<Rightarrow> string \<Rightarrow> bool" where
  "substring pat [] = (pat = [])"
| "substring pat (c # cs) = (startswith (c # cs) pat \<or> substring pat cs)"

subsection \<open>\<^verbatim>\<open>urllib.parse.urlparse\<close>\<close>

text \<open>
  The library function, after CPython 3.11: leading characters up to the space are
  stripped and tabs, carriage returns and newlines removed; a scheme is split off at the
  first colon when everything before it is a scheme character and the first character an
  ASCII letter; after \<^verbatim>\<open>//\<close> the network location runs to the first of \<^verbatim>\<open>/ ? #\<close>; a
  network location with one square bracket and not the other raises \<open>ValueError\<close>; then
  fragment and query are split off; for the schemes that use parameters, the parameters
  are split off the last path segment at its first semicolon. Two checks of the library
  are not modelled: the validation of a bracketed host (both brackets present, which
  never happens in a URL found by the extractor, since its pattern excludes the closing
  bracket), and the NFKC check of a non-ASCII network location (which accepts every
  character below 256).
\<close>

record url_parts =
  scheme :: string
  netloc :: string
  path :: string
  params :: string
  query :: string
  fragment :: string

definition scheme_char :: "char \<Rightarrow> bool" where
  "scheme_char c =
     (let n = of_char c :: nat
      in (97 \<le> n \<and> n \<le> 122) \<or> (65 \<le> n \<and> n \<le> 90) \<or> (48 \<le> n \<and> n \<le> 57)
         \<or> c = CHR ''+'' \<or> c = CHR ''-'' \<or> c = CHR ''.'')"

definition ascii_letter :: "char \<Rightarrow> bool" where
  "ascii_letter c = (let n = of_char c :: nat in (97 \<le> n \<and> n \<le> 122) \<or> (65 \<le> n \<and> n \<le> 90))"

definition uses_params :: "string list" where
  "uses_params = ['''', ''ftp'', ''hdl'', ''prospero'', ''http'', ''imap'', ''https'', ''shttp'',
     ''rtsp'', ''rtsps'', ''rtspu'', ''sip'', ''sips'', ''mms'', ''sftp'', ''tel'']"

text \<open>\<^verbatim>\<open>s.split(c, 1)\<close> for a \<open>c\<close> that occurs in \<open>s\<close>, and \<^verbatim>\<open>s\<close> with an empty
  second half otherwise.\<close>

definition split_first :: "char \<Rightarrow> string \<Rightarrow> string \<times> string" where
  "split_first c s = (takeWhile (\<lambda>x. x \<noteq> c) s, drop 1 (dropWhile (\<lambda>x. x \<noteq> c) s))"

definition split_scheme :: "string \<Rightarrow> string \<times> string" where
  "split_scheme url =
     (let i = length (takeWhile (\<lambda>x. x \<noteq> CHR '':'') url)
      in if CHR '':'' \<in> set url \<and> 0 < i \<and> ascii_letter (hd url) \<and> list_all scheme_char (take i url)
         then (lower (take i url), drop (Suc i) url)
         else ('''', url))"

definition splitparams :: "string \<Rightarrow> string \<times> string" where
  "splitparams url =
     (if CHR ''/'' \<in> set url then
        (let k = nat (rfind (CHR ''/'') url); tail = drop k url
         in if CHR '';'' \<in> set tail
            then (take k url @ fst (split_first (CHR '';'') tail), snd (split_first (CHR '';'') tail))
            else (url, ''''))
      else split_first (CHR '';'') url)"

definition urlparse :: "string \<Rightarrow> error + url_parts" where
  "urlparse url0 =
     (let url1 = dropWhile (\<lambda>c. (of_char c :: nat) \<le> 32) url0;
          url2 = filter (\<lambda>c. c \<noteq> CHR 0x09 \<and> c \<noteq> CR \<and> c \<noteq> NL) url1;
          (sch, url3) = split_scheme url2;
          (loc, url4) = (if take 2 url3 = ''//''
                         then (takeWhile (\<lambda>c. c \<notin> set ''/?#'') (drop 2 url3),
                               dropWhile (\<lambda>c. c \<notin> set ''/?#'') (drop 2 url3))
                         else ('''', url3))
      in if (CHR ''['' \<in> set loc \<and> CHR '']'' \<notin> set loc) \<or> (CHR '']'' \<in> set loc \<and> CHR ''['' \<notin> set loc)
         then Inl ValueError
         else
           let (url5, frag) = split_first (CHR ''#'') url4;
               (url6, qry) = split_first (CHR ''?'') url5;
               (pth, prm) = (if sch \<in> set uses_params \<and> CHR '';'' \<in> set url6
                             then splitparams url6 else (url6, ''''))
           in Inr \<lparr>scheme = sch, netloc = loc, path = pth, params = prm, query = qry,
                   fragment = frag\<rparr>)"

subsection \<open>The filter\<close>

definition SKIP_DOMAINS :: "string list" where
  "SKIP_DOMAINS = [''list-manage.com'', ''mailchimp.com'', ''sendgrid.net'',
     ''manage.kmail-lists.com'', ''google.com/maps'', ''play.google.com'', ''itunes.apple.com'',
     ''facebook.com'', ''twitter.com'', ''instagram.com'', ''linkedin.com'', ''youtube.com'',
     ''doubleclick.net'', ''googlesyndication.com'']"

definition SKIP_URL_PATTERNS :: "string list" where
  "SKIP_URL_PATTERNS = [''unsubscribe'', ''optout'', ''opt-out'', ''preference'',
     ''click.'', ''tracking.'', ''trk.'', ''opens.'', ''beacon'', ''pixel'', ''1x1'']"

definition MEDIA_EXTENSIONS :: "string list" where
  "MEDIA_EXTENSIONS = [''.png'', ''.jpg'', ''.jpeg'', ''.gif'', ''.svg'', ''.ico'', ''.css'', ''.js'',
     ''.woff'']"

text \<open>
  \<^verbatim>\<open>
  def is_tracking_url(url):
      url_lower = url.lower()
      for pat in SKIP_URL_PATTERNS:
          if pat in url_lower:
              return True
      parsed = urlparse(url_lower)
      domain = parsed.netloc
      for sd in SKIP_DOMAINS:
          if sd in domain:
              return True
      return False
  \<close>
  \<^verbatim>\<open>SKIP_DOMAINS\<close> is a Python set; the result does not depend on the order in which it is
  iterated.
\<close>

definition is_tracking_url :: "string \<Rightarrow> error + bool" where
  "is_tracking_url url =
     (let url_lower = lower url
      in if list_ex (\<lambda>pat. substring pat url_lower) SKIP_URL_PATTERNS then Inr True
         else case urlparse url_lower of
                Inl e \<Rightarrow> Inl e
              | Inr parsed \<Rightarrow> Inr (list_ex (\<lambda>sd. substring sd (netloc parsed)) SKIP_DOMAINS))"

text \<open>
  \<^verbatim>\<open>re.findall(r'https?://[^\s<>"\')\]]+', body_text)\<close>: the matches from left to right,
  without overlap. \<open>match_url s\<close> is the match that starts at the first character of \<open>s\<close>.
\<close>

definition url_char :: "char \<Rightarrow> bool" where
  "url_char c = (\<not> is_space c
     \<and> c \<notin> set [CHR ''<'', CHR ''>'', CHR 0x22, CHR 0x27, CHR '')'', CHR '']''])"

definition match_url :: "string \<Rightarrow> string option" where
  "match_url s =
     (if startswith s ''https://'' then
        (if takeWhile url_char (drop 8 s) = [] then None
         else Some (''https://'' @ takeWhile url_char (drop 8 s)))
      else if startswith s ''http://'' then
        (if takeWhile url_char (drop 7 s) = [] then None
         else Some (''http://'' @ takeWhile url_char (drop 7 s)))
      else None)"

function findall_urls :: "string \<Rightarrow> string list" where
  "findall_urls s =
     (if s = [] then []
      else case match_url s of
             Some m \<Rightarrow> m # findall_urls (drop (length m) s)
           | None \<Rightarrow> findall_urls (tl s))"
  by pat_completeness auto
termination
proof (relation "measure length")
  show "wf (measure length)" by simp
next
  fix s m :: string
  assume "s \<noteq> []" and "match_url s = Some m"
  then have "0 < length m" by (auto simp: match_url_def split: if_splits)
  with \<open>s \<noteq> []\<close> show "(drop (length m) s, s) \<in> measure length" by simp
next
  fix s :: string
  assume "s \<noteq> []"
  then show "(tl s, s) \<in> measure length" by (cases s) simp_all
qed

declare findall_urls.simps [simp del]

text \<open>
  \<^verbatim>\<open>
  seen = set()
  good_urls = []
  for url in urls:
      url = url.rstrip('.,;:!?)>]')
      if len(url) < 20:
          continue
      if is_tracking_url(url):
          continue
      path_lower = urlparse(url).path.lower()
      if any(path_lower.endswith(ext) for ext in ('.png', ...)):
          continue
      parsed = urlparse(url)
      key = parsed.netloc + parsed.path
      if key in seen:
          continue
      seen.add(key)
      good_urls.append(url)
  return good_urls[:MAX_URLS]
  \<close>
  The all-at-once variant has the same loop and returns \<^verbatim>\<open>good[:2]\<close>.
  \<open>candidate\<close> is the loop body down to the computation of \<^verbatim>\<open>key\<close>: the stripped
  URL with its key, \<open>None\<close> where the body reaches a \<^verbatim>\<open>continue\<close>, or the exception
  of \<^verbatim>\<open>urlparse\<close>. \<open>filter_urls\<close> is the loop, with the set \<^verbatim>\<open>seen\<close> and the list
  \<^verbatim>\<open>good_urls\<close> as they are before the iteration.
\<close>

definition candidate :: "string \<Rightarrow> error + (string \<times> string) option" where
  "candidate url0 =
     (let url = rstrip_chars ''.,;:!?)>]'' url0
      in if length url < 20 then Inr None
         else case is_tracking_url url of
                Inl e \<Rightarrow> Inl e
              | Inr True \<Rightarrow> Inr None
              | Inr False \<Rightarrow>
                  (case urlparse url of
                     Inl e \<Rightarrow> Inl e
                   | Inr parsed \<Rightarrow>
                       if list_ex (\<lambda>ext. endswith (lower (path parsed)) ext) MEDIA_EXTENSIONS
                       then Inr None
                       else Inr (Some (url, netloc parsed @ path parsed))))"

fun filter_urls :: "string list \<Rightarrow> string set \<Rightarrow> string list \<Rightarrow> error + string list" where
  "filter_urls [] seen good_urls = Inr good_urls"
| "filter_urls (url0 # urls) seen good_urls =
     (case candidate url0 of
        Inl e \<Rightarrow> Inl e
      | Inr None \<Rightarrow> filter_urls urls seen good_urls
      | Inr (Some (url, key)) \<Rightarrow>
          if key \<in> seen then filter_urls urls seen good_urls
          else filter_urls urls (insert key seen) (good_urls @ [url]))"

definition extract_article_urls :: "nat \<Rightarrow> string \<Rightarrow> error + string list" where
  "extract_article_urls max_urls body_text =
     (case filter_urls (findall_urls body_text) {} [] of
        Inl e \<Rightarrow> Inl e
      | Inr good_urls \<Rightarrow> Inr (take max_urls good_urls))"

definition MAX_URLS :: nat where "MAX_URLS = 3"
definition MAX_URLS_ALL :: nat where "MAX_URLS_ALL = 2"

text \<open>
  For the statements below: the URLs of a body that pass the filters, each with its key,
  in the order in which they appear in the body.
\<close>

fun accepted_of :: "string list \<Rightarrow> (string \<times> string) list" where
  "accepted_of [] = []"
| "accepted_of (url0 # urls) =
     (case candidate url0 of
        Inr (Some x) \<Rightarrow> x # accepted_of urls
      | _ \<Rightarrow> accepted_of urls)"

definition accepted :: "string \<Rightarrow> (string \<times> string) list" where
  "accepted body_text = accepted_of (findall_urls body_text)"

text \<open>Three bodies: an article link and a tracking link; two links to one article that
  differ in the query string; and two such links of which the first names a pattern of
  the denylist in its query string.\<close>

definition body_article_and_tracker :: string where
  "body_article_and_tracker
     = ''https://example.com/article?x=1 https://click.mailchimp.com/track?u=2''"

definition body_same_article_twice :: string where
  "body_same_article_twice
     = ''https://example.com/article?x=1 https://example.com/article?y=2''"

definition body_first_link_filtered :: string where
  "body_first_link_filtered
     = ''https://example.com/article?unsubscribe=1 https://example.com/article?y=2''"

text \<open>
  Deduplication by key in first-seen order, stated on the list \<open>A\<close> of accepted URLs
  with their keys: position \<open>i\<close> is kept when no earlier position holds the same key, and
  the URLs at the kept positions are listed in the order of the positions.
\<close>

definition first_with_key :: "(string \<times> string) list \<Rightarrow> nat \<Rightarrow> bool" where
  "first_with_key A i = list_all (\<lambda>j. snd (A ! j) \<noteq> snd (A ! i)) [0..<i]"

definition first_seen :: "(string \<times> string) list \<Rightarrow> string list" where
  "first_seen A = map (\<lambda>i. fst (A ! i)) (filter (first_with_key A) [0..<length A])"

text \<open>A body with ten links: four articles, of which the first is linked three times
  (once with another query string, once verbatim), a share link on a social network, an
  image, a short link and an unsubscribe link.\<close>

definition body_newsletter :: string where
  "body_newsletter =
     ''Read https://example.com/article?x=1, then https://www.facebook.com/sharer/example (share), ''
     @ ''https://example.com/static/logo.PNG https://t.co/abc https://example.com/article?y=2 ''
     @ ''https://news.example.org/story.html. https://example.com/article?x=1 ''
     @ ''https://blog.example.net/post/1 https://example.com/unsubscribe?u=1 ''
     @ ''https://example.edu/fourth-article''"

section \<open>Mail reader (\<^verbatim>\<open>get_email_body\<close>)\<close>

text \<open>
  \<^verbatim>\<open>
  headers = {}
  for h in payload.get('headers', []):
      name = h.get('name', '').lower()
      if name in ('from', 'to', 'subject', 'date'):
          headers[name] = h.get('value', '')
  \<close>
\<close>

fun collect_headers :: "header list \<Rightarrow> (string \<rightharpoonup> string) \<Rightarrow> (string \<rightharpoonup> string)" where
  "collect_headers [] headers = headers"
| "collect_headers (h # hs) headers =
     (let name = lower (hdr_name h)
      in if name \<in> set [''from'', ''to'', ''subject'', ''date'']
         then collect_headers hs (headers(name \<mapsto> hdr_value h))
         else collect_headers hs headers)"

definition dict_get :: "(string \<rightharpoonup> string) \<Rightarrow> string \<Rightarrow> string \<Rightarrow> string" where
  "dict_get d k dflt = (case d k of None \<Rightarrow> dflt | Some v \<Rightarrow> v)"

text \<open>
  \<^verbatim>\<open>
  body_text = ''
  body_html = ''
  def extract_parts(parts):
      nonlocal body_text, body_html
      for part in parts:
          mime = part.get('mimeType', '')
          body_data = part.get('body', {}).get('data', '')
          if body_data:
              decoded = base64.urlsafe_b64decode(body_data).decode('utf-8', errors='replace')
              if mime == 'text/plain' and not body_text:
                  body_text = decoded
              elif mime == 'text/html' and not body_html:
                  body_html = decoded
          if 'parts' in part:
              extract_parts(part['parts'])
  \<close>
  The two variables are the state, passed in and returned as a pair
  \<open>(body_text, body_html)\<close>. \<open>visit_part\<close> is the body of the loop up to the recursive call.
\<close>

definition visit_part :: "(string \<Rightarrow> error + string) \<Rightarrow> part \<Rightarrow> string \<times> string \<Rightarrow> error + string \<times> string" where
  "visit_part decode p st =
     (if part_data p \<noteq> [] then
        (case decode (part_data p) of
           Inl e \<Rightarrow> Inl e
         | Inr decoded \<Rightarrow>
             if part_mimeType p = ''text/plain'' \<and> fst st = [] then Inr (decoded, snd st)
             else if part_mimeType p = ''text/html'' \<and> snd st = [] then Inr (fst st, decoded)
             else Inr st)
      else Inr st)"

fun extract_parts :: "(string \<Rightarrow> error + string) \<Rightarrow> part list \<Rightarrow> string \<times> string \<Rightarrow> error + string \<times> string"
  and extract_part :: "(string \<Rightarrow> error + string) \<Rightarrow> part \<Rightarrow> string \<times> string \<Rightarrow> error + string \<times> string"
where
  "extract_parts decode [] st = Inr st"
| "extract_parts decode (p # ps) st =
     (case extract_part decode p st of
        Inl e \<Rightarrow> Inl e
      | Inr st' \<Rightarrow> extract_parts decode ps st')"
| "extract_part decode (Part mime d sub) st =
     (case visit_part decode (Part mime d sub) st of
        Inl e \<Rightarrow> Inl e
      | Inr st' \<Rightarrow> extract_parts decode sub st')"

text \<open>
  \<^verbatim>\<open>
  if 'parts' in payload:
      extract_parts(payload['parts'])
  else:
      body_data = payload.get('body', {}).get('data', '')
      if body_data:
          decoded = base64.urlsafe_b64decode(body_data).decode('utf-8', errors='replace')
          mime = payload.get('mimeType', '')
          if mime == 'text/plain':
              body_text = decoded
          elif mime == 'text/html':
              body_html = decoded
  # if there is only HTML, convert it to text
  if not body_text and body_html:
      body_text = h2t.handle(body_html)
  \<close>
  \<open>payload_bodies\<close> is the pair of variables before the last \<^verbatim>\<open>if\<close>, \<open>extract_body\<close>
  the value of \<^verbatim>\<open>body_text\<close> after it.
\<close>

definition payload_bodies :: "(string \<Rightarrow> error + string) \<Rightarrow> payload \<Rightarrow> error + string \<times> string" where
  "payload_bodies decode pl =
     (case payload_parts pl of
        Some ps \<Rightarrow> extract_parts decode ps ('''', '''')
      | None \<Rightarrow>
          if payload_data pl \<noteq> [] then
            (case decode (payload_data pl) of
               Inl e \<Rightarrow> Inl e
             | Inr decoded \<Rightarrow>
                 if payload_mimeType pl = ''text/plain'' then Inr (decoded, '''')
                 else if payload_mimeType pl = ''text/html'' then Inr ('''', decoded)
                 else Inr ('''', ''''))
          else Inr ('''', ''''))"

definition extract_body :: "(string \<Rightarrow> error + string) \<Rightarrow> (string \<Rightarrow> string) \<Rightarrow> payload \<Rightarrow> error + string" where
  "extract_body decode h2t pl =
     (case payload_bodies decode pl of
        Inl e \<Rightarrow> Inl e
      | Inr (body_text, body_html) \<Rightarrow>
          Inr (if body_text = [] \<and> body_html \<noteq> [] then h2t body_html else body_text))"

text \<open>
  \<^verbatim>\<open>
  msg = messages[0]
  payload = msg.get('payload', {})
  snippet = msg.get('snippet', '')
  ...
  return {
      'from': headers.get('from', ''),
      'subject': headers.get('subject', ''),
      'date': headers.get('date', ''),
      'body': body_text[:MAX_BODY],
      'snippet': snippet,
  }
  \<close>
\<close>

definition read_message :: "(string \<Rightarrow> error + string) \<Rightarrow> (string \<Rightarrow> string) \<Rightarrow> nat \<Rightarrow> message \<Rightarrow> error + email_data" where
  "read_message decode h2t max_body msg =
     (let pl = msg_payload msg;
          snippet = msg_snippet msg;
          headers = collect_headers (payload_headers pl) Map.empty
      in case extract_body decode h2t pl of
           Inl e \<Rightarrow> Inl e
         | Inr body_text \<Rightarrow>
             Inr \<lparr>e_from = dict_get headers ''from'' '''',
                  e_subject = dict_get headers ''subject'' '''',
                  e_date = dict_get headers ''date'' '''',
                  e_body = take max_body body_text,
                  e_snippet = snippet\<rparr>)"

text \<open>
  \<^verbatim>\<open>
  def get_email_body(thread_id):
      raw = run_gog(['gmail', 'thread', thread_id, '--account', ACCOUNT,
                     '--json', '--results-only'])
      try:
          data = json.loads(raw)
      except (json.JSONDecodeError, TypeError):
          return {}
      thread = data.get('thread', {})
      messages = thread.get('messages', [])
      if not messages:
          return {}
      msg = messages[0]
      ...
  \<close>
  The empty dictionary is \<open>None\<close>. The all-at-once variant runs
  \<^verbatim>\<open>['gmail','thread','get', thread_id, ...]\<close> and cuts the body at 4000 characters
  instead of \<^verbatim>\<open>MAX_BODY\<close>; the rest is the same.
\<close>

definition MAX_BODY :: nat where "MAX_BODY = 5000"
definition MAX_BODY_ALL :: nat where "MAX_BODY_ALL = 4000"

definition read_thread :: "env \<Rightarrow> nat \<Rightarrow> string \<Rightarrow> error + email_data option" where
  "read_thread env max_body raw =
     (case json_loads env raw of
        None \<Rightarrow> Inr None
      | Some messages \<Rightarrow>
          (case messages of
             [] \<Rightarrow> Inr None
           | msg # later \<Rightarrow>
               (case read_message (b64decode env) (html2text env) max_body msg of
                  Inl e \<Rightarrow> Inl e
                | Inr email_data \<Rightarrow> Inr (Some email_data))))"

definition get_email_body :: "env \<Rightarrow> string \<Rightarrow> error + email_data option" where
  "get_email_body env thread_id =
     (case run_gog env [''gmail'', ''thread'', thread_id, ''--account'', account env,
                    ''--json'', ''--results-only''] of
        Inl e \<Rightarrow> Inl e
      | Inr raw \<Rightarrow> read_thread env MAX_BODY raw)"

definition get_email_body_all :: "env \<Rightarrow> string \<Rightarrow> error + email_data option" where
  "get_email_body_all env thread_id =
     (case run_gog env [''gmail'', ''thread'', ''get'', thread_id, ''--account'', account env,
                    ''--json'', ''--results-only''] of
        Inl e \<Rightarrow> Inl e
      | Inr raw \<Rightarrow> read_thread env MAX_BODY_ALL raw)"



section \<open>Article fetcher (\<^verbatim>\<open>fetch_medium_article\<close>, \<^verbatim>\<open>fetch_article\<close>)\<close>

definition MAX_ARTICLE :: nat where "MAX_ARTICLE = 3000"

text \<open>A value that Python takes as true in \<^verbatim>\<open>if content:\<close>, for a value that is
  \<^verbatim>\<open>None\<close> or a string.\<close>

definition truthy :: "string option \<Rightarrow> bool" where
  "truthy r = (case r of None \<Rightarrow> False | Some s \<Rightarrow> s \<noteq> [])"

text \<open>\<^verbatim>\<open>re.sub(r'\n{3,}', '\n\n', text)\<close>; \<open>n\<close> counts the newlines of the run being read.\<close>

fun collapse_blank :: "nat \<Rightarrow> string \<Rightarrow> string" where
  "collapse_blank n [] = replicate (if 3 \<le> n then 2 else n) NL"
| "collapse_blank n (c # cs) =
     (if c = NL then collapse_blank (Suc n) cs
      else replicate (if 3 \<le> n then 2 else n) NL @ c # collapse_blank 0 cs)"

text \<open>
  \<^verbatim>\<open>
  def fetch_medium_article(url):
      try:
          result = subprocess.run(['python3', '/opt/clawdbot/medium-fetch.py', url], ...)
          if result.returncode == 0 and len(result.stdout.strip()) > 50:
              return result.stdout.strip()[:MAX_ARTICLE]
      except Exception as e:
          log.warning('Medium fetch failed: %s', e)
      return None
  \<close>
\<close>

definition fetch_medium_article :: "env \<Rightarrow> string \<Rightarrow> string option" where
  "fetch_medium_article env url =
     (case medium_fetch env url of
        Inl e \<Rightarrow> None
      | Inr (returncode, stdout) \<Rightarrow>
          if returncode = 0 \<and> 50 < length (strip stdout) then Some (take MAX_ARTICLE (strip stdout))
          else None)"

text \<open>
  \<^verbatim>\<open>
  def fetch_article(url):
      if 'medium.com' in url:
          content = fetch_medium_article(url)
          if content:
              return content
      try:
          resp = requests.get(url, ...)
          resp.raise_for_status()
          content_type = resp.headers.get('Content-Type', '')
          if 'html' not in content_type and 'text' not in content_type:
              return None
          text = h2t.handle(resp.text)
          text = re.sub(r'\n{3,}', '\n\n', text)
          text = text.strip()
          if len(text) < 50:
              return None
          return text[:MAX_ARTICLE]
      except Exception as e:
          return None
  \<close>
  \<^verbatim>\<open>raise_for_status\<close> raises for the status codes 400 to 599.
\<close>

definition fetch_page :: "env \<Rightarrow> string \<Rightarrow> string option" where
  "fetch_page env url =
     (case http_get env url of
        Inl e \<Rightarrow> None
      | Inr resp \<Rightarrow>
          if 400 \<le> resp_status resp \<and> resp_status resp < 600 then None
          else if \<not> substring ''html'' (resp_content_type resp)
                  \<and> \<not> substring ''text'' (resp_content_type resp) then None
          else
            let text = strip (collapse_blank 0 (html2text env (resp_text resp)))
            in if length text < 50 then None else Some (take MAX_ARTICLE text))"

definition fetch_article :: "env \<Rightarrow> string \<Rightarrow> string option" where
  "fetch_article env url =
     (if substring ''medium.com'' url \<and> truthy (fetch_medium_article env url)
      then fetch_medium_article env url
      else fetch_page env url)"

section \<open>Summarizer (\<^verbatim>\<open>call_gemini\<close>, \<^verbatim>\<open>call_deepseek\<close>, \<^verbatim>\<open>call_ai\<close>)\<close>

text \<open>
  \<^verbatim>\<open>
  def call_gemini(prompt):
      if not GEMINI_KEY:
          return None
      try:
          resp = requests.post(GEMINI_URL, ...)
          resp.raise_for_status()
          data = resp.json()
          candidates = data.get('candidates', [])
          if candidates:
              parts = candidates[0].get('content', {}).get('parts', [])
              if parts:
                  return parts[0].get('text', '')
          return None
      except Exception as e:
          return None
  \<close>
  The request is written to the log of the world before the response is read.
\<close>

definition call_gemini :: "env \<Rightarrow> string \<Rightarrow> world \<Rightarrow> string option \<times> world" where
  "call_gemini env prompt w =
     (if gemini_key env = [] then (None, w)
      else
        let w' = w\<lparr>ai_log := ai_log w @ [Gemini]\<rparr>
        in case gemini_post env prompt of
             Inl e \<Rightarrow> (None, w')
           | Inr (status, body) \<Rightarrow>
               if 400 \<le> status \<and> status < 600 then (None, w')
               else
                 (case body of
                    None \<Rightarrow> (None, w')
                  | Some candidates \<Rightarrow>
                      (case candidates of
                         [] \<Rightarrow> (None, w')
                       | parts # others \<Rightarrow>
                           (case parts of
                              [] \<Rightarrow> (None, w')
                            | text # later_parts \<Rightarrow> (Some text, w')))))"

text \<open>
  \<^verbatim>\<open>
  def call_deepseek(prompt):
      if not DEEPSEEK_KEY:
          return None
      try:
          resp = requests.post(DEEPSEEK_URL, ...)
          resp.raise_for_status()
          data = resp.json()
          choices = data.get('choices', [])
          if choices:
              return choices[0].get('message', {}).get('content', '')
          return None
      except Exception as e:
          return None
  \<close>
\<close>

definition call_deepseek :: "env \<Rightarrow> string \<Rightarrow> world \<Rightarrow> string option \<times> world" where
  "call_deepseek env prompt w =
     (if deepseek_key env = [] then (None, w)
      else
        let w' = w\<lparr>ai_log := ai_log w @ [DeepSeek]\<rparr>
        in case deepseek_post env prompt of
             Inl e \<Rightarrow> (None, w')
           | Inr (status, body) \<Rightarrow>
               if 400 \<le> status \<and> status < 600 then (None, w')
               else
                 (case body of
                    None \<Rightarrow> (None, w')
                  | Some choices \<Rightarrow>
                      (case choices of
                         [] \<Rightarrow> (None, w')
                       | content # others \<Rightarrow> (Some content, w'))))"

text \<open>
  \<^verbatim>\<open>
  def call_ai(prompt):
      result = call_gemini(prompt)
      if result:
          return result
      result = call_deepseek(prompt)
      if result:
          return result
      return None
  \<close>
\<close>

definition call_ai :: "env \<Rightarrow> string \<Rightarrow> world \<Rightarrow> string option \<times> world" where
  "call_ai env prompt w =
     (case call_gemini env prompt w of
        (result, w1) \<Rightarrow>
          if truthy result then (result, w1)
          else
            (case call_deepseek env prompt w1 of
               (result2, w2) \<Rightarrow> if truthy result2 then (result2, w2) else (None, w2)))"

section \<open>Per-message orchestrator (\<^verbatim>\<open>gmail-digest.py\<close>, \<^verbatim>\<open>process_email\<close>)\<close>

text \<open>\<^verbatim>\<open>str(n)\<close> for a natural number.\<close>

function str_nat :: "nat \<Rightarrow> string" where
  "str_nat n = (if n < 10 then [char_of (48 + n)] else str_nat (n div 10) @ [char_of (48 + n mod 10)])"
  by pat_completeness auto
termination
  by (relation "measure id") auto

declare str_nat.simps [simp del]

text \<open>
  \<^verbatim>\<open>
  def mark_as_read(thread_id):
      out = run_gog(['gmail', 'thread', 'modify', thread_id, '--remove', 'UNREAD',
                     '--account', ACCOUNT, '--force'])
      return True
  \<close>
  The command is in the log of the world also when waiting for it times out. The
  all-at-once variant runs the same command.
\<close>

definition mark_as_read :: "env \<Rightarrow> string \<Rightarrow> world \<Rightarrow> (error + bool) \<times> world" where
  "mark_as_read env thread_id w =
     (let w' = w\<lparr>read_log := read_log w @ [thread_id]\<rparr>
      in case run_gog env [''gmail'', ''thread'', ''modify'', thread_id, ''--remove'', ''UNREAD'',
                       ''--account'', account env, ''--force''] of
           Inl e \<Rightarrow> (Inl e, w')
         | Inr out \<Rightarrow> (Inr True, w'))"

text \<open>
  \<^verbatim>\<open>
  articles = []
  for url in urls:
      content = fetch_article(url)
      if content:
          articles.append({'url': url, 'content': content})
  \<close>
\<close>

fun fetch_articles :: "env \<Rightarrow> string list \<Rightarrow> (string \<times> string) list" where
  "fetch_articles env [] = []"
| "fetch_articles env (url # urls) =
     (case fetch_article env url of
        None \<Rightarrow> fetch_articles env urls
      | Some content \<Rightarrow>
          if content \<noteq> [] then (url, content) # fetch_articles env urls
          else fetch_articles env urls)"

text \<open>
  \<^verbatim>\<open>
  def build_summary_prompt(email_data, articles):
      prompt = f"""... {email_data.get('from', '?')} ... {email_data.get('subject', '?')}
      ... {email_data.get('date', '?')} ... {email_data.get('body', '')[:3000]}"""
      if articles:
          prompt += '\n\n... :'
          for i, a in enumerate(articles, 1):
              prompt += f'\n\n[...{i}] {a["url"][:80]}\n{a["content"][:1500]}'
      return prompt
  \<close>
\<close>

fun article_sections :: "literals \<Rightarrow> nat \<Rightarrow> (string \<times> string) list \<Rightarrow> string" where
  "article_sections lits i [] = []"
| "article_sections lits i ((url, content) # articles) =
     [NL, NL] @ ''['' @ lit_article lits @ str_nat i @ ''] '' @ take 80 url @ [NL]
       @ take 1500 content @ article_sections lits (Suc i) articles"

definition build_summary_prompt :: "literals \<Rightarrow> email_data \<Rightarrow> (string \<times> string) list \<Rightarrow> string" where
  "build_summary_prompt lits email_data articles =
     lit_prompt_head lits @ e_from email_data
       @ lit_prompt_subject lits @ e_subject email_data
       @ lit_prompt_date lits @ e_date email_data
       @ lit_prompt_body lits @ take 3000 (e_body email_data)
       @ (if articles \<noteq> [] then lit_prompt_articles lits @ article_sections lits 1 articles
          else [])"

text \<open>
  The two notifications of \<^verbatim>\<open>process_email\<close>:
  \<^verbatim>\<open>
  if summary:
      tg_text = f"<mail> <b>{email_data.get('subject', '?')}</b>\n"
      tg_text += f"<person> {email_data.get('from', '?')}\n\n"
      tg_text += summary
  else:
      tg_text = f"<raw head>{email_data.get('from', '?')}\n"
      tg_text += f"<subject label>{email_data.get('subject', '?')}\n\n"
      tg_text += email_data.get('snippet', '')[:500]
  \<close>
\<close>

definition summary_text :: "literals \<Rightarrow> email_data \<Rightarrow> string \<Rightarrow> string" where
  "summary_text lits email_data summary =
     lit_mail lits @ '' <b>'' @ e_subject email_data @ ''</b>'' @ [NL]
       @ lit_person lits @ '' '' @ e_from email_data @ [NL, NL] @ summary"

definition raw_text :: "literals \<Rightarrow> email_data \<Rightarrow> string" where
  "raw_text lits email_data =
     lit_raw_head lits @ e_from email_data @ [NL]
       @ lit_raw_subject lits @ e_subject email_data @ [NL, NL]
       @ take 500 (e_snippet email_data)"

text \<open>
  Steps 2 to 5 of \<^verbatim>\<open>process_email\<close>, up to the call of \<^verbatim>\<open>send_tg\<close>: the article URLs
  of the body, the fetched articles, the prompt, the call of the summarizer and the text
  of the notification.
  \<^verbatim>\<open>
  body = email_data.get('body', '')
  urls = extract_article_urls(body)
  articles = ...
  prompt = build_summary_prompt(email_data, articles)
  summary = call_ai(prompt)
  if summary: ... else: ...
  \<close>
\<close>

definition notification :: "env \<Rightarrow> literals \<Rightarrow> email_data \<Rightarrow> world \<Rightarrow> error + string \<times> world" where
  "notification env lits email_data w =
     (case extract_article_urls MAX_URLS (e_body email_data) of
        Inl e \<Rightarrow> Inl e
      | Inr urls \<Rightarrow>
          let articles = fetch_articles env urls;
              prompt = build_summary_prompt lits email_data articles
          in case call_ai env prompt w of
               (summary, w1) \<Rightarrow>
                 (case summary of
                    Some s \<Rightarrow>
                      if s \<noteq> [] then Inr (summary_text lits email_data s, w1)
                      else Inr (raw_text lits email_data, w1)
                  | None \<Rightarrow> Inr (raw_text lits email_data, w1)))"

text \<open>
  \<^verbatim>\<open>
  def process_email(email_meta, seen_ids):
      msg_id = email_meta.get('id', '')
      if msg_id in seen_ids:
          return False
      email_data = get_email_body(msg_id)
      if not email_data:
          seen_ids.add(msg_id)
          return False
      ...
      ok = send_tg(tg_text)
      if ok:
          mark_as_read(msg_id)
      else:
          log.error('Failed to send to TG: %s', subject[:40])
      seen_ids.add(msg_id)
      return True
  \<close>
  The line \<^verbatim>\<open>email_data['id'] = msg_id\<close> adds a key that nothing reads afterwards; it is
  left out. The set \<^verbatim>\<open>seen_ids\<close> is changed in place; the model returns it with the result and the
  world. An exception leaves the function where it is raised, with the set and the world
  as they are then.
\<close>

definition process_email :: "env \<Rightarrow> literals \<Rightarrow> email_meta \<Rightarrow> string set \<Rightarrow> world \<Rightarrow> (error + bool) \<times> string set \<times> world" where
  "process_email env lits email_meta seen_ids w =
     (let msg_id = meta_id email_meta
      in if msg_id \<in> seen_ids then (Inr False, seen_ids, w)
         else
           case get_email_body env msg_id of
             Inl e \<Rightarrow> (Inl e, seen_ids, w)
           | Inr None \<Rightarrow> (Inr False, insert msg_id seen_ids, w)
           | Inr (Some email_data) \<Rightarrow>
               (case notification env lits email_data w of
                  Inl e \<Rightarrow> (Inl e, seen_ids, w)
                | Inr (tg_txt, w1) \<Rightarrow>
                    (case send_tg (bot_token env) (telegram_post env) tg_txt w1 of
                       (ok, w2) \<Rightarrow>
                         if ok then
                           (case mark_as_read env msg_id w2 of
                              (Inl e, w3) \<Rightarrow> (Inl e, seen_ids, w3)
                            | (Inr marked, w3) \<Rightarrow> (Inr True, insert msg_id seen_ids, w3))
                         else (Inr True, insert msg_id seen_ids, w2))))"

section \<open>Delivery of the all-at-once variant (\<^verbatim>\<open>gmail-digest-all.py\<close>, end of the script)\<close>

text \<open>
  The literals of \<^verbatim>\<open>gmail-digest-all.py\<close> with characters above 255: the header of the
  digest up to the opening parenthesis, the text after the number of mails, the
  character of the rule, and the notification of a failed summary.
\<close>

record literals_all =
  lit_digest_head :: string
  lit_digest_count :: string
  lit_rule :: string
  lit_failed :: string

fun mark_all_read :: "env \<Rightarrow> string list \<Rightarrow> world \<Rightarrow> (error + unit) \<times> world" where
  "mark_all_read env [] w = (Inr (), w)"
| "mark_all_read env (thread_id # ids) w =
     (case mark_as_read env thread_id w of
        (Inl e, w') \<Rightarrow> (Inl e, w')
      | (Inr marked, w') \<Rightarrow> mark_all_read env ids w')"

text \<open>
  \<^verbatim>\<open>
  if summary:
      header = f"<head>{len(all_emails)}<count>{'<rule>'*30}\n\n"
      full_text = header + summary
      ok = send_tg(full_text)
      if ok:
          for em in all_emails:
              mark_as_read(em['id'])
      else:
          log.error('TG send failed, NOT marking as read')
  else:
      send_tg('<failed>')
  \<close>
  \<open>summary\<close> is the result of \<^verbatim>\<open>call_ai\<close>, \<open>ids\<close> the identifiers of \<^verbatim>\<open>all_emails\<close>, the
  messages that could be read.
\<close>

definition deliver_digest :: "env \<Rightarrow> literals_all \<Rightarrow> string option \<Rightarrow> string list \<Rightarrow> world \<Rightarrow> (error + unit) \<times> world" where
  "deliver_digest env lits summary ids w =
     (let failed =
            (case send_tg_all (telegram_post env) (lit_failed lits) w of
               (Inl e, w1) \<Rightarrow> (Inl e, w1)
             | (Inr ok, w1) \<Rightarrow> (Inr (), w1))
      in case summary of
           None \<Rightarrow> failed
         | Some s \<Rightarrow>
             if s = [] then failed
             else
               let header = lit_digest_head lits @ str_nat (length ids) @ lit_digest_count lits
                              @ concat (replicate 30 (lit_rule lits)) @ [NL, NL];
                   full_text = header @ s
               in case send_tg_all (telegram_post env) full_text w of
                    (Inl e, w1) \<Rightarrow> (Inl e, w1)
                  | (Inr ok, w1) \<Rightarrow> if ok then mark_all_read env ids w1 else (Inr (), w1))"

section \<open>Example inputs\<close>

text \<open>
  A decoder that knows five inputs: the encodings of \<^verbatim>\<open>hi\<close>, of \<^verbatim>\<open><b>hi</b>\<close> and of
  6000 letters \<^verbatim>\<open>A\<close>, a string without any character of the base64 alphabet, which
  decodes to the empty string, and \<^verbatim>\<open>abc\<close>, whose padding is incorrect.
\<close>

definition long_data :: string where
  "long_data = concat (replicate 2000 ''QUFB'')"

definition long_text :: string where
  "long_text = replicate 6000 (CHR ''A'')"

definition example_decode :: "string \<Rightarrow> error + string" where
  "example_decode d =
     (if d = ''aGk='' then Inr ''hi''
      else if d = ''PGI+aGk8L2I+'' then Inr ''<b>hi</b>''
      else if d = ''!'' then Inr ''''
      else if d = ''abc'' then Inl DecodeError
      else if d = long_data then Inr long_text
      else Inl DecodeError)"

text \<open>A converter from HTML to text that knows one input.\<close>

definition example_h2t :: "string \<Rightarrow> string" where
  "example_h2t html = (if html = ''<b>hi</b>'' then ''hi'' @ [NL] else html)"

text \<open>Messages: one with a nested multipart body, its reply, one with a long plain part,
  one whose plain part holds data that decodes to nothing, and one with headers and
  snippet only.\<close>

definition example_headers :: "header list" where
  "example_headers =
     [\<lparr>hdr_name = ''From'', hdr_value = ''alice@example.com''\<rparr>,
      \<lparr>hdr_name = ''Subject'', hdr_value = ''Hello''\<rparr>,
      \<lparr>hdr_name = ''Date'', hdr_value = ''Mon, 2 Nov 2026''\<rparr>]"

definition nested_message :: message where
  "nested_message =
     \<lparr>msg_payload =
        \<lparr>payload_headers = example_headers, payload_mimeType = ''multipart/mixed'',
         payload_data = '''',
         payload_parts = Some
           [Part ''multipart/alternative'' ''''
              [Part ''text/html'' ''PGI+aGk8L2I+'' [], Part ''text/plain'' ''aGk='' []],
            Part ''text/plain'' ''PGI+aGk8L2I+'' []]\<rparr>,
      msg_snippet = ''hi''\<rparr>"

definition reply_message :: message where
  "reply_message =
     \<lparr>msg_payload =
        \<lparr>payload_headers = [\<lparr>hdr_name = ''From'', hdr_value = ''bob@example.com''\<rparr>],
         payload_mimeType = ''text/plain'', payload_data = ''PGI+aGk8L2I+'',
         payload_parts = None\<rparr>,
      msg_snippet = ''a reply''\<rparr>"



definition plain_message :: message where
  "plain_message =
     \<lparr>msg_payload =
        \<lparr>payload_headers = example_headers, payload_mimeType = ''text/plain'',
         payload_data = '''', payload_parts = None\<rparr>,
      msg_snippet = ''hello there''\<rparr>"

text \<open>
  An environment: the mail command exits with code 0 and prints one document for every
  thread, which parses to the messages \<open>msgs\<close>; no AI key is configured; no article can be fetched; the chat
  endpoint answers as \<open>tg\<close> says.
\<close>

definition example_env :: "message list option \<Rightarrow> (tg_request \<Rightarrow> error + nat) \<Rightarrow> env" where
  "example_env msgs tg =
     \<lparr>account = ''me@example.com'', bot_token = ''token'', gemini_key = '''', deepseek_key = '''',
      gog = (\<lambda>args. Inr (0, ''{}'')),
      json_loads = (\<lambda>raw. msgs),
      b64decode = example_decode,
      html2text = example_h2t,
      medium_fetch = (\<lambda>url. Inl TimeoutExpired),
      http_get = (\<lambda>url. Inl RequestError),
      gemini_post = (\<lambda>prompt. Inl RequestError),
      deepseek_post = (\<lambda>prompt. Inl RequestError),
      telegram_post = tg\<rparr>"

text \<open>Stand-ins for the literals, and the search result of one thread.\<close>

definition example_literals :: literals where
  "example_literals =
     \<lparr>lit_prompt_head = ''Summarise this mail. From: '', lit_prompt_subject = NL # ''Subject: '',
      lit_prompt_date = NL # ''Date: '', lit_prompt_body = [NL, NL] @ ''Body:'' @ [NL],
      lit_prompt_articles = [NL, NL] @ ''Articles:'', lit_article = ''article'',
      lit_mail = ''[mail]'', lit_person = ''[from]'',
      lit_raw_head = ''[mail] new mail'' @ NL # ''From: '', lit_raw_subject = ''Subject: ''\<rparr>"

definition example_literals_all :: literals_all where
  "example_literals_all =
     \<lparr>lit_digest_head = ''Unread mail ('', lit_digest_count = '')'' @ [NL], lit_rule = ''-'',
      lit_failed = ''summary failed''\<rparr>"

definition example_meta :: email_meta where
  "example_meta = \<lparr>meta_id = ''18c2f0a1b2c3d4e5'', meta_subject = ''Hello''\<rparr>"

text \<open>What the mail reader returns for the message with headers and snippet only.\<close>

definition plain_email :: email_data where
  "plain_email =
     \<lparr>e_from = ''alice@example.com'', e_subject = ''Hello'', e_date = ''Mon, 2 Nov 2026'',
      e_body = '''', e_snippet = ''hello there''\<rparr>"




text \<open>An environment with both AI keys configured: the primary provider answers every
  request as \<open>g\<close> says, the fallback provider as \<open>d\<close> says.\<close>

definition with_providers ::
  "(error + nat \<times> string list list option) \<Rightarrow> (error + nat \<times> string list option) \<Rightarrow> env \<Rightarrow> env" where
  "with_providers g d env =
     env\<lparr>gemini_key := ''gemini-key'', deepseek_key := ''deepseek-key'',
         gemini_post := \<lambda>prompt. g, deepseek_post := \<lambda>prompt. d\<rparr>"
chapter \<open>Properties\<close>

section \<open>Seen-id store\<close>

lemma is_space_NL: "is_space NL" by (simp add: is_space_def NL_def)
lemma is_space_CR: "is_space CR" by (simp add: is_space_def CR_def)

lemma readlines_acc_line:
  "NL \<notin> set l \<Longrightarrow> readlines_acc cur (l @ NL # rest) = (cur @ l @ [NL]) # readlines_acc [] rest"
  by (induction l arbitrary: cur) auto

lemma readlines_acc_join:
  "xs \<noteq> [] \<Longrightarrow> \<forall>x\<in>set xs. NL \<notin> set x \<Longrightarrow>
   readlines_acc [] (join [NL] xs @ [NL]) = map (\<lambda>x. x @ [NL]) xs"
proof (induction "[NL]" xs rule: join.induct)
  case 1 then show ?case by simp
next
  case (2 x)
  then show ?case using readlines_acc_line[of x "[]" "[]"] by simp
next
  case (3 x y ys)
  then show ?case using readlines_acc_line[of x "[]" "join [NL] (y # ys) @ [NL]"] by simp
qed

lemma universal_newlines_id: "CR \<notin> set s \<Longrightarrow> universal_newlines s = s"
  by (induction s rule: universal_newlines.induct) auto

lemma set_join: "set (join sep xs) \<subseteq> set sep \<union> \<Union> (set ` set xs)"
  by (induction sep xs rule: join.induct) auto

lemma strip_clean: "\<forall>c\<in>set x. \<not> is_space c \<Longrightarrow> strip (x @ [NL]) = x"
proof -
  assume a: "\<forall>c\<in>set x. \<not> is_space c"
  have 1: "dropWhile is_space (x @ [NL]) = (if x = [] then [] else x @ [NL])"
    using a is_space_NL by (cases x) auto
  have 2: "dropWhile is_space (rev x) = rev x" using a by (cases "rev x") (auto simp: rev_eq_Cons_iff) 
  show ?thesis unfolding strip_def 1 using 2 is_space_NL by auto
qed

lemma load_written:
  assumes "\<forall>x\<in>set xs. x \<noteq> [] \<and> (\<forall>c\<in>set x. \<not> is_space c)"
  shows "load_seen_ids (Some (join [NL] xs @ [NL])) = set xs"
proof (cases "xs = []")
  case True
  then show ?thesis
    by (simp add: load_seen_ids_def readlines_def strip_def is_space_def CR_def NL_def)
next
  case False
  have noCR: "CR \<notin> set (join [NL] xs @ [NL])"
    using assms set_join[of "[NL]" xs] is_space_CR by (auto simp: CR_def NL_def)
  have noNL: "\<forall>x\<in>set xs. NL \<notin> set x" using assms is_space_NL by auto
  have rl: "readlines (join [NL] xs @ [NL]) = map (\<lambda>x. x @ [NL]) xs"
    unfolding readlines_def universal_newlines_id[OF noCR]
    by (rule readlines_acc_join[OF False noNL])
  have st: "map strip (map (\<lambda>x. x @ [NL]) xs) = xs"
    using assms by (induction xs) (auto simp: strip_clean)
  have "[strip line. line \<leftarrow> map (\<lambda>x. x @ [NL]) xs, strip line \<noteq> []] = xs"
    using assms by (induction xs) (auto simp: strip_clean)
  then show ?thesis by (simp add: load_seen_ids_def rl)
qed

text \<open>
  Claim C9. For every set of at most 500 identifiers, each non-empty and without
  whitespace characters, loading the state file that \<open>save_seen_ids\<close> has just written
  returns exactly that set.
\<close>

theorem save_then_load_identity:
  assumes "finite ids" and "card ids \<le> 500"
    and "\<forall>i\<in>ids. i \<noteq> [] \<and> (\<forall>c\<in>set i. \<not> is_space c)"
  shows "load_seen_ids (save_seen_ids ids) = ids"
proof -
  have len: "length (sorted_list_of_set ids) \<le> 500" using assms by simp
  have r: "recent_ids ids = sorted_list_of_set ids"
    using len by (simp add: recent_ids_def Let_def)
  have "load_seen_ids (save_seen_ids ids) = set (sorted_list_of_set ids)"
    unfolding save_seen_ids_def r using assms by (intro load_written) simp
  then show ?thesis using assms by simp
qed

theorem save_then_load_identity_witness:
  "finite {''18c2f0a1b2c3d4e5'', ''18c2f0a1b2c3d4e6''}
   \<and> card {''18c2f0a1b2c3d4e5'', ''18c2f0a1b2c3d4e6''} \<le> 500
   \<and> load_seen_ids (save_seen_ids {''18c2f0a1b2c3d4e5'', ''18c2f0a1b2c3d4e6''}) = {''18c2f0a1b2c3d4e5'', ''18c2f0a1b2c3d4e6''}"
  using save_then_load_identity[of "{''18c2f0a1b2c3d4e5'', ''18c2f0a1b2c3d4e6''}"]
  by (simp add: is_space_def)











section \<open>Notifier\<close>

lemma rfind_absent: "c \<notin> set s \<Longrightarrow> rfind c s = - 1"
  by (simp add: rfind_def)

lemma rfind_present:
  assumes "c \<in> set s"
  shows "0 \<le> rfind c s" and "rfind c s < int (length s)" and "s ! nat (rfind c s) = c"
    and "\<forall>i. nat (rfind c s) < i \<and> i < length s \<longrightarrow> s ! i \<noteq> c"
proof -
  define k where "k = length (takeWhile (\<lambda>x. x \<noteq> c) (rev s))"
  have "takeWhile (\<lambda>x. x \<noteq> c) (rev s) \<noteq> rev s"
    using assms by (simp add: takeWhile_eq_all_conv)
  then have "dropWhile (\<lambda>x. x \<noteq> c) (rev s) \<noteq> []"
    by (metis append_Nil2 takeWhile_dropWhile_id)
  moreover have "length (takeWhile (\<lambda>x. x \<noteq> c) (rev s)) + length (dropWhile (\<lambda>x. x \<noteq> c) (rev s)) = length s"
    by (metis length_append length_rev takeWhile_dropWhile_id)
  ultimately have kl: "k < length s"
    unfolding k_def by (cases "dropWhile (\<lambda>x. x \<noteq> c) (rev s)") auto
  have r: "rfind c s = int (length s - 1 - k)" using assms by (simp add: rfind_def k_def)
  show "0 \<le> rfind c s" by (simp add: r)
  show "rfind c s < int (length s)" using kl by (simp add: r)
  have rk: "rev s ! k = c"
    using nth_length_takeWhile[of "\<lambda>x. x \<noteq> c" "rev s"] kl by (auto simp: k_def)
  have n: "nat (rfind c s) = length s - Suc k" unfolding r nat_int by simp
  then show "s ! nat (rfind c s) = c" using kl \<open>rev s ! k = c\<close> by (simp add: rev_nth)
  show "\<forall>i. nat (rfind c s) < i \<and> i < length s \<longrightarrow> s ! i \<noteq> c"
  proof (intro allI impI)
    fix i assume i: "nat (rfind c s) < i \<and> i < length s"
    define j where "j = length s - Suc i"
    have jk: "j < k" using i kl unfolding n j_def by arith
    have "rev s ! j = takeWhile (\<lambda>x. x \<noteq> c) (rev s) ! j"
      using jk by (simp add: k_def takeWhile_nth)
    moreover have "takeWhile (\<lambda>x. x \<noteq> c) (rev s) ! j \<in> set (takeWhile (\<lambda>x. x \<noteq> c) (rev s))"
      using jk by (simp add: k_def)
    ultimately have "rev s ! j \<noteq> c" using set_takeWhileD by fastforce
    moreover have "j < length s" and "length s - Suc j = i" using i unfolding j_def by arith+
    then have "rev s ! j = s ! i" using rev_nth[of j s] by simp
    ultimately show "s ! i \<noteq> c" by simp
  qed
qed

lemma cut_point_le: "cut_point t \<le> 4000"
proof (cases "NL \<in> set (take 4000 t)")
  case True
  from rfind_present(2)[OF True] have "rfind NL (take 4000 t) < 4000" by simp
  then show ?thesis by (auto simp: cut_point_def Let_def)
next
  case False
  then show ?thesis by (simp add: cut_point_def Let_def rfind_absent)
qed

lemma cut_point_ge: "2000 \<le> cut_point t"
  by (cases "rfind NL (take 4000 t) < 2000") (auto simp: cut_point_def Let_def)

lemma cut_point_newline:
  assumes "4000 < length t" and "cut_point t < 4000"
  shows "t ! cut_point t = NL"
proof -
  have ge: "\<not> rfind NL (take 4000 t) < 2000" and c: "cut_point t = nat (rfind NL (take 4000 t))"
    using assms(2) by (auto simp: cut_point_def Let_def split: if_splits)
  then have "NL \<in> set (take 4000 t)" using rfind_absent[of NL "take 4000 t"] by fastforce
  from rfind_present(3)[OF this] assms show ?thesis by (simp add: c)
qed

lemma cut_point_last:
  assumes "4000 < length t" and "2000 \<le> i" and "i < 4000"
    and "cut_point t < i \<or> cut_point t = 4000"
  shows "t ! i \<noteq> NL"
proof (cases "NL \<in> set (take 4000 t)")
  case False
  moreover have "take 4000 t ! i \<in> set (take 4000 t)" using assms by (intro nth_mem) simp
  moreover have "take 4000 t ! i = t ! i" using assms by simp
  ultimately show ?thesis by metis
next
  case True
  have "nat (rfind NL (take 4000 t)) < i"
    using assms(2,4) rfind_present(2)[OF True] by (auto simp: cut_point_def Let_def split: if_splits)
  with rfind_present(4)[OF True] assms have "take 4000 t ! i \<noteq> NL" by simp
  then show ?thesis using assms by simp
qed

lemma split_parts_bounds: "\<forall>p\<in>set (split_parts t). p \<noteq> [] \<and> length p \<le> 4000"
proof (induction t rule: split_parts.induct)
  case (1 t)
  show ?case
  proof (cases "t = [] \<or> length t \<le> 4000")
    case True
    then show ?thesis by (auto simp: split_parts.simps[of t])
  next
    case False
    then have "take (cut_point t) t \<noteq> []" using cut_point_pos[of t] by auto
    with False 1 cut_point_le[of t] show ?thesis
      by (simp add: split_parts.simps[of t])
  qed
qed

lemma split_parts_reassemble:
  "\<exists>gaps. length gaps = length (split_parts t) \<and> (\<forall>g\<in>set gaps. set g \<subseteq> {NL})
     \<and> concat (map2 (@) (split_parts t) gaps) = t"
proof (induction t rule: split_parts.induct)
  case (1 t)
  show ?case
  proof (cases "t = []")
    case True
    then show ?thesis by (simp add: split_parts.simps[of "[]"])
  next
    case ne: False
    show ?thesis
    proof (cases "length t \<le> 4000")
      case True
      with ne have "split_parts t = [t]" by (simp add: split_parts.simps[of t])
      then have "length [[]::string] = length (split_parts t) \<and> (\<forall>g\<in>set [[]::string]. set g \<subseteq> {NL})
         \<and> concat (map2 (@) (split_parts t) [[]]) = t" by simp
      then show ?thesis by blast
    next
      case False
      define rest where "rest = drop (cut_point t) t"
      define g where "g = takeWhile (\<lambda>c. c \<in> set [NL]) rest"
      define t' where "t' = lstrip_chars [NL] rest"
      have sp: "split_parts t = take (cut_point t) t # split_parts t'"
        using ne False by (simp add: split_parts.simps[of t] t'_def rest_def)
      from 1[OF ne False] obtain gaps where
        gaps: "length gaps = length (split_parts t')" "\<forall>g\<in>set gaps. set g \<subseteq> {NL}"
          "concat (map2 (@) (split_parts t') gaps) = t'"
        unfolding t'_def rest_def by blast
      have "g @ t' = rest" by (simp add: g_def t'_def lstrip_chars_def)
      then have whole: "take (cut_point t) t @ g @ t' = t" by (simp add: rest_def)
      have gNL: "set g \<subseteq> {NL}" unfolding g_def using set_takeWhileD by fastforce
      have "length (g # gaps) = length (split_parts t) \<and> (\<forall>x\<in>set (g # gaps). set x \<subseteq> {NL})
         \<and> concat (map2 (@) (split_parts t) (g # gaps)) = t"
        using gaps gNL whole by (simp add: sp)
      then show ?thesis by blast
    qed
  qed
qed

lemma post_parts_all:
  "\<forall>p\<in>set ps. \<exists>status. post \<lparr>tg_text = p, tg_parse_mode = None\<rparr> = Inr status \<Longrightarrow>
   post_parts post ps w =
     (Inr (), w\<lparr>tg_log := tg_log w @ map (\<lambda>p. \<lparr>tg_text = p, tg_parse_mode = None\<rparr>) ps\<rparr>)"
proof (induction ps arbitrary: w)
  case Nil
  then show ?case by simp
next
  case (Cons p ps)
  then obtain status where "post \<lparr>tg_text = p, tg_parse_mode = None\<rparr> = Inr status" by auto
  with Cons show ?case by (simp add: Let_def)
qed

lemma send_tg_log:
  assumes "tok \<noteq> []"
  shows "tg_log (snd (send_tg tok post t w)) = tg_log w @
     (let x = (if length t > 4000 then take 3997 t @ ''...'' else t);
          html = \<lparr>tg_text = x, tg_parse_mode = Some ''HTML''\<rparr>
      in case post html of
           Inl e \<Rightarrow> [html]
         | Inr status \<Rightarrow>
             if status = 200 then [html] else [html, \<lparr>tg_text = x, tg_parse_mode = None\<rparr>])"
  using assms by (simp add: send_tg_def Let_def split: sum.splits)

text \<open>
  Claim C4, as amended. The notifier of the all-at-once variant splits a payload longer
  than 4000 characters into non-empty parts of at most 4000 characters. The first cut is
  at the last newline among the first 4000 characters when that newline is at index 2000
  or later, and at 4000 otherwise (then no newline lies at the indices 2000 to 3999); the
  remaining text, without its leading newlines, is cut in the same way. The parts, with
  the runs of newlines that were dropped after them, give back the payload; when no
  request raises, the parts are posted in order and the call returns success. The
  notifier of the per-message pipeline does not split: every request it posts carries the
  first 3997 characters of the payload followed by three dots.
\<close>

theorem long_payload_delivery:
  assumes "4000 < length t"
  shows "(\<forall>p\<in>set (split_parts t). p \<noteq> [] \<and> length p \<le> 4000)
    \<and> split_parts t
        = take (cut_point t) t # split_parts (lstrip_chars [NL] (drop (cut_point t) t))
    \<and> 2000 \<le> cut_point t \<and> cut_point t \<le> 4000
    \<and> (cut_point t < 4000 \<longrightarrow> t ! cut_point t = NL)
    \<and> (\<forall>i. 2000 \<le> i \<and> i < 4000 \<and> (cut_point t < i \<or> cut_point t = 4000) \<longrightarrow> t ! i \<noteq> NL)
    \<and> (\<exists>gaps. length gaps = length (split_parts t) \<and> (\<forall>g\<in>set gaps. set g \<subseteq> {NL})
          \<and> concat (map2 (@) (split_parts t) gaps) = t)
    \<and> ((\<forall>p\<in>set (split_parts t). \<exists>status. post \<lparr>tg_text = p, tg_parse_mode = None\<rparr> = Inr status)
          \<longrightarrow> send_tg_all post t w
              = (Inr True, w\<lparr>tg_log := tg_log w
                   @ map (\<lambda>p. \<lparr>tg_text = p, tg_parse_mode = None\<rparr>) (split_parts t)\<rparr>))
    \<and> (tok \<noteq> [] \<longrightarrow>
         tg_log (snd (send_tg tok post t w)) = tg_log w @
           (case post \<lparr>tg_text = take 3997 t @ ''...'', tg_parse_mode = Some ''HTML''\<rparr> of
              Inl e \<Rightarrow> [\<lparr>tg_text = take 3997 t @ ''...'', tg_parse_mode = Some ''HTML''\<rparr>]
            | Inr status \<Rightarrow>
                if status = 200 then [\<lparr>tg_text = take 3997 t @ ''...'', tg_parse_mode = Some ''HTML''\<rparr>]
                else [\<lparr>tg_text = take 3997 t @ ''...'', tg_parse_mode = Some ''HTML''\<rparr>,
                      \<lparr>tg_text = take 3997 t @ ''...'', tg_parse_mode = None\<rparr>]))"
proof -
  have ne: "t \<noteq> []" and long: "\<not> length t \<le> 4000" using assms by auto
  have step: "split_parts t
        = take (cut_point t) t # split_parts (lstrip_chars [NL] (drop (cut_point t) t))"
    using ne long by (simp add: split_parts.simps[of t])
  have nl: "cut_point t < 4000 \<longrightarrow> t ! cut_point t = NL"
    using cut_point_newline[OF assms] by simp
  have last: "\<forall>i. 2000 \<le> i \<and> i < 4000 \<and> (cut_point t < i \<or> cut_point t = 4000) \<longrightarrow> t ! i \<noteq> NL"
    using cut_point_last[OF assms] by blast
  have send: "(\<forall>p\<in>set (split_parts t). \<exists>status. post \<lparr>tg_text = p, tg_parse_mode = None\<rparr> = Inr status)
          \<longrightarrow> send_tg_all post t w
              = (Inr True, w\<lparr>tg_log := tg_log w
                   @ map (\<lambda>p. \<lparr>tg_text = p, tg_parse_mode = None\<rparr>) (split_parts t)\<rparr>)"
    using assms by (simp add: send_tg_all_def post_parts_all)
  have trunc: "tok \<noteq> [] \<longrightarrow>
         tg_log (snd (send_tg tok post t w)) = tg_log w @
           (case post \<lparr>tg_text = take 3997 t @ ''...'', tg_parse_mode = Some ''HTML''\<rparr> of
              Inl e \<Rightarrow> [\<lparr>tg_text = take 3997 t @ ''...'', tg_parse_mode = Some ''HTML''\<rparr>]
            | Inr status \<Rightarrow>
                if status = 200 then [\<lparr>tg_text = take 3997 t @ ''...'', tg_parse_mode = Some ''HTML''\<rparr>]
                else [\<lparr>tg_text = take 3997 t @ ''...'', tg_parse_mode = Some ''HTML''\<rparr>,
                      \<lparr>tg_text = take 3997 t @ ''...'', tg_parse_mode = None\<rparr>])"
    using assms by (simp add: send_tg_log Let_def)
  from split_parts_bounds[of t] step cut_point_ge[of t] cut_point_le[of t] nl last
    split_parts_reassemble[of t] send trunc
  show ?thesis by (intro conjI)
qed

lemma rfind_last_occurrence: "c \<notin> set ys \<Longrightarrow> rfind c (xs @ c # ys) = int (length xs)"
proof -
  assume a: "c \<notin> set ys"
  have "takeWhile (\<lambda>x. x \<noteq> c) (rev ys @ c # rev xs) = rev ys"
    using a by (subst takeWhile_append2) auto
  then show ?thesis by (simp add: rfind_def)
qed

lemma split_payload_9000:
  "split_parts payload_9000
     = [replicate 3000 (CHR ''a''), replicate 4000 (CHR ''b''), replicate 1999 (CHR ''b'')]"
proof -
  have t1: "take 4000 payload_9000 = replicate 3000 (CHR ''a'') @ NL # replicate 999 (CHR ''b'')"
    by (simp add: payload_9000_def)
  have "rfind NL (take 4000 payload_9000) = 3000"
    unfolding t1 by (subst rfind_last_occurrence) (simp_all add: NL_def)
  then have c1: "cut_point payload_9000 = 3000" by (simp add: cut_point_def)
  have r1: "lstrip_chars [NL] (drop 3000 payload_9000) = replicate 5999 (CHR ''b'')"
    by (simp add: payload_9000_def lstrip_chars_def NL_def)
  have s1: "split_parts payload_9000
      = replicate 3000 (CHR ''a'') # split_parts (replicate 5999 (CHR ''b''))"
    by (subst split_parts.simps) (simp add: c1 r1, simp add: payload_9000_def)
  have "rfind NL (take 4000 (replicate 5999 (CHR ''b''))) = - 1"
    by (simp add: rfind_absent NL_def)
  then have c2: "cut_point (replicate 5999 (CHR ''b'')) = 4000" by (simp add: cut_point_def)
  have r2: "lstrip_chars [NL] (replicate 1999 (CHR ''b'')) = replicate 1999 (CHR ''b'')"
    by (simp add: lstrip_chars_def NL_def)
  have s2: "split_parts (replicate 5999 (CHR ''b''))
      = replicate 4000 (CHR ''b'') # split_parts (replicate 1999 (CHR ''b''))"
    by (subst split_parts.simps) (simp add: c2 r2)
  have s3: "split_parts (replicate 1999 (CHR ''b'')) = [replicate 1999 (CHR ''b'')]"
    by (subst split_parts.simps) simp
  show ?thesis by (simp add: s1 s2 s3)
qed

theorem long_payload_delivery_witness:
  "4000 < length payload_9000
   \<and> split_parts payload_9000
       = [replicate 3000 (CHR ''a''), replicate 4000 (CHR ''b''), replicate 1999 (CHR ''b'')]
   \<and> send_tg_all accept_all payload_9000 world0
       = (Inr True, world0\<lparr>tg_log :=
            [\<lparr>tg_text = replicate 3000 (CHR ''a''), tg_parse_mode = None\<rparr>,
             \<lparr>tg_text = replicate 4000 (CHR ''b''), tg_parse_mode = None\<rparr>,
             \<lparr>tg_text = replicate 1999 (CHR ''b''), tg_parse_mode = None\<rparr>]\<rparr>)"
proof -
  have len: "4000 < length payload_9000" by (simp add: payload_9000_def)
  have ok: "\<forall>p\<in>set (split_parts payload_9000).
      \<exists>status. accept_all \<lparr>tg_text = p, tg_parse_mode = None\<rparr> = Inr status"
    by (simp add: accept_all_def)
  from long_payload_delivery[OF len, of accept_all world0 "''token''"] ok
  have "send_tg_all accept_all payload_9000 world0
      = (Inr True, world0\<lparr>tg_log := tg_log world0
           @ map (\<lambda>p. \<lparr>tg_text = p, tg_parse_mode = None\<rparr>) (split_parts payload_9000)\<rparr>)"
    by blast
  then show ?thesis using len by (simp add: split_payload_9000 world0_def)
qed

text \<open>
  Claim C4, as stated, fails for the notifier of the per-message pipeline: of the payload
  of 9000 characters it posts one message of 4000 characters, the first 3997 characters
  and three dots, and nothing of the rest.
\<close>

theorem message_payload_truncated_counterexample:
  "map tg_text (tg_log (snd (send_tg ''token'' accept_all payload_9000 world0)))
     = [take 3997 payload_9000 @ ''...'']
   \<and> length (take 3997 payload_9000 @ ''...'') = 4000
   \<and> length payload_9000 = 9000"
  by (simp add: send_tg_def accept_all_def world0_def Let_def payload_9000_def)

section \<open>URL extractor and filter\<close>

lemma first_with_key_0: "first_with_key A 0"
  by (simp add: first_with_key_def)

lemma first_with_key_Suc:
  "first_with_key (x # A) (Suc i) = (snd x \<noteq> snd (A ! i) \<and> first_with_key A i)"
proof -
  have "[0..<Suc i] = 0 # map Suc [0..<i]" by (simp add: upt_conv_Cons map_Suc_upt del: upt_Suc)
  then show ?thesis
    unfolding first_with_key_def by (simp add: list.pred_map comp_def del: upt_Suc)
qed

lemma kept_Cons:
  "map (\<lambda>i. fst ((x # A) ! i))
       (filter (\<lambda>i. snd ((x # A) ! i) \<notin> S \<and> first_with_key (x # A) i) [0..<Suc (length A)])
     = (if snd x \<notin> S then [fst x] else [])
       @ map (\<lambda>i. fst (A ! i))
           (filter (\<lambda>i. snd (A ! i) \<notin> insert (snd x) S \<and> first_with_key A i) [0..<length A])"
proof -
  have u: "[0..<Suc (length A)] = 0 # map Suc [0..<length A]"
    by (simp add: upt_conv_Cons map_Suc_upt del: upt_Suc)
  have "filter (\<lambda>i. snd ((x # A) ! i) \<notin> S \<and> first_with_key (x # A) i) (map Suc [0..<length A])
      = map Suc (filter (\<lambda>i. snd (A ! i) \<notin> insert (snd x) S \<and> first_with_key A i) [0..<length A])"
    by (auto simp: filter_map comp_def first_with_key_Suc intro!: arg_cong[where f = "map Suc"]
        filter_cong)
  then show ?thesis
    unfolding u by (simp add: first_with_key_0 comp_def del: upt_Suc)
qed

lemma filter_urls_first_seen:
  assumes "filter_urls cs seen good = Inr R"
  shows "R = good @ map (\<lambda>i. fst (accepted_of cs ! i))
      (filter (\<lambda>i. snd (accepted_of cs ! i) \<notin> seen \<and> first_with_key (accepted_of cs) i)
         [0..<length (accepted_of cs)])"
  using assms
proof (induction cs arbitrary: seen good)
  case Nil
  then show ?case by simp
next
  case (Cons c cs)
  show ?case
  proof (cases "candidate c")
    case (Inl e)
    with Cons.prems show ?thesis by simp
  next
    case (Inr v)
    show ?thesis
    proof (cases v)
      case None
      with Inr Cons.prems have "filter_urls cs seen good = Inr R" by simp
      from Cons.IH[OF this] Inr None show ?thesis by simp
    next
      case (Some x)
      obtain u k where x: "x = (u, k)" by (cases x)
      have acc: "accepted_of (c # cs) = (u, k) # accepted_of cs"
        using Inr Some x by simp
      show ?thesis
      proof (cases "k \<in> seen")
        case True
        with Inr Some x Cons.prems have "filter_urls cs seen good = Inr R" by simp
        from Cons.IH[OF this] True show ?thesis
          unfolding acc length_Cons kept_Cons by (simp add: insert_absorb)
      next
        case False
        with Inr Some x Cons.prems have "filter_urls cs (insert k seen) (good @ [u]) = Inr R"
          by simp
        from Cons.IH[OF this] False show ?thesis
          unfolding acc length_Cons kept_Cons by simp
      qed
    qed
  qed
qed

lemma filter_urls_returns:
  "\<forall>c\<in>set cs. \<exists>v. candidate c = Inr v \<Longrightarrow> \<exists>R. filter_urls cs seen good = Inr R"
proof (induction cs arbitrary: seen good)
  case Nil
  then show ?case by simp
next
  case (Cons c cs)
  then obtain v where "candidate c = Inr v" by auto
  with Cons show ?case by (cases v) (auto split: prod.splits)
qed

lemma candidate_accepts:
  "candidate url0 = Inr (Some (u, key)) \<longleftrightarrow>
     (u = rstrip_chars ''.,;:!?)>]'' url0 \<and> 20 \<le> length u \<and> is_tracking_url u = Inr False
      \<and> (\<exists>parsed. urlparse u = Inr parsed
            \<and> \<not> list_ex (\<lambda>ext. endswith (lower (path parsed)) ext) MEDIA_EXTENSIONS
            \<and> key = netloc parsed @ path parsed))"
  by (auto simp: candidate_def Let_def split: sum.splits bool.splits if_splits)

lemma example_article_and_tracker:
  "extract_article_urls MAX_URLS body_article_and_tracker = Inr [''https://example.com/article?x=1'']"
  by code_simp

lemma example_article_and_tracker_all:
  "extract_article_urls MAX_URLS_ALL body_article_and_tracker
     = Inr [''https://example.com/article?x=1'']"
  by code_simp

lemma example_same_article_twice:
  "extract_article_urls MAX_URLS body_same_article_twice = Inr [''https://example.com/article?x=1'']"
  by code_simp

lemma example_same_article_twice_all:
  "extract_article_urls MAX_URLS_ALL body_same_article_twice
     = Inr [''https://example.com/article?x=1'']"
  by code_simp

lemma example_newsletter:
  "extract_article_urls MAX_URLS body_newsletter
     = Inr [''https://example.com/article?x=1'', ''https://news.example.org/story.html'',
            ''https://blog.example.net/post/1'']"
  by code_simp

lemma example_newsletter_all:
  "extract_article_urls MAX_URLS_ALL body_newsletter
     = Inr [''https://example.com/article?x=1'', ''https://news.example.org/story.html'']"
  by code_simp

lemma example_newsletter_accepted:
  "accepted body_newsletter
     = [(''https://example.com/article?x=1'', ''example.com/article''),
        (''https://example.com/article?y=2'', ''example.com/article''),
        (''https://news.example.org/story.html'', ''news.example.org/story.html''),
        (''https://example.com/article?x=1'', ''example.com/article''),
        (''https://blog.example.net/post/1'', ''blog.example.net/post/1''),
        (''https://example.edu/fourth-article'', ''example.edu/fourth-article'')]"
  by code_simp

text \<open>
  Claim C5, as amended. Of the body with an article link and a tracking link only the
  article link is returned. Filtering comes before deduplication. A URL found in the
  body is accepted when, after its trailing punctuation is stripped, it has at least 20
  characters, is not a tracking URL and its path has no media extension; its key is its
  network location followed by its path. Of the accepted URLs, those are kept that are
  the first with their key, in the order in which they appear in the body, and the
  first 3 of them (per-message pipeline) or the first 2 (all-at-once variant) are
  returned. So of two accepted URLs that share network location and path, only the one
  seen first is kept. The call returns whenever \<open>urlparse\<close> raises on no URL of the body.
\<close>

theorem extract_article_urls_first_seen:
  "(extract_article_urls MAX_URLS body = Inr urls \<longrightarrow> urls = take 3 (first_seen (accepted body)))
   \<and> (extract_article_urls MAX_URLS_ALL body = Inr urls
        \<longrightarrow> urls = take 2 (first_seen (accepted body)))
   \<and> ((\<forall>c\<in>set (findall_urls body). \<exists>v. candidate c = Inr v)
        \<longrightarrow> (\<exists>urls3 urls2. extract_article_urls MAX_URLS body = Inr urls3
                \<and> extract_article_urls MAX_URLS_ALL body = Inr urls2))
   \<and> (candidate url0 = Inr (Some (u, key)) \<longleftrightarrow>
         (u = rstrip_chars ''.,;:!?)>]'' url0 \<and> 20 \<le> length u \<and> is_tracking_url u = Inr False
          \<and> (\<exists>parsed. urlparse u = Inr parsed
                \<and> \<not> list_ex (\<lambda>ext. endswith (lower (path parsed)) ext) MEDIA_EXTENSIONS
                \<and> key = netloc parsed @ path parsed)))
   \<and> (\<forall>i j. j < i \<and> i < length (accepted body)
          \<and> snd (accepted body ! j) = snd (accepted body ! i)
        \<longrightarrow> \<not> first_with_key (accepted body) i)
   \<and> extract_article_urls MAX_URLS body_article_and_tracker
        = Inr [''https://example.com/article?x=1'']
   \<and> extract_article_urls MAX_URLS_ALL body_article_and_tracker
        = Inr [''https://example.com/article?x=1'']
   \<and> extract_article_urls MAX_URLS body_same_article_twice
        = Inr [''https://example.com/article?x=1'']
   \<and> extract_article_urls MAX_URLS_ALL body_same_article_twice
        = Inr [''https://example.com/article?x=1'']
   \<and> extract_article_urls MAX_URLS body_newsletter
        = Inr [''https://example.com/article?x=1'', ''https://news.example.org/story.html'',
               ''https://blog.example.net/post/1'']
   \<and> extract_article_urls MAX_URLS_ALL body_newsletter
        = Inr [''https://example.com/article?x=1'', ''https://news.example.org/story.html'']"
proof -
  have cap: "extract_article_urls k body = Inr urls \<Longrightarrow> urls = take k (first_seen (accepted body))"
    for k
  proof -
    assume "extract_article_urls k body = Inr urls"
    then obtain good where good: "filter_urls (findall_urls body) {} [] = Inr good"
      and urls: "urls = take k good"
      by (auto simp: extract_article_urls_def split: sum.splits)
    from filter_urls_first_seen[OF good] urls show ?thesis
      by (simp add: first_seen_def accepted_def)
  qed
  have 1: "extract_article_urls MAX_URLS body = Inr urls \<longrightarrow> urls = take 3 (first_seen (accepted body))"
    using cap[of MAX_URLS] by (simp add: MAX_URLS_def)
  have 2: "extract_article_urls MAX_URLS_ALL body = Inr urls
      \<longrightarrow> urls = take 2 (first_seen (accepted body))"
    using cap[of MAX_URLS_ALL] by (simp add: MAX_URLS_ALL_def)
  have 3: "(\<forall>c\<in>set (findall_urls body). \<exists>v. candidate c = Inr v)
        \<longrightarrow> (\<exists>urls3 urls2. extract_article_urls MAX_URLS body = Inr urls3
                \<and> extract_article_urls MAX_URLS_ALL body = Inr urls2)"
  proof
    assume "\<forall>c\<in>set (findall_urls body). \<exists>v. candidate c = Inr v"
    from filter_urls_returns[OF this, of "{}" "[]"]
    show "\<exists>urls3 urls2. extract_article_urls MAX_URLS body = Inr urls3
                \<and> extract_article_urls MAX_URLS_ALL body = Inr urls2"
      by (auto simp: extract_article_urls_def)
  qed
  have 5: "\<forall>i j. j < i \<and> i < length (accepted body)
          \<and> snd (accepted body ! j) = snd (accepted body ! i)
        \<longrightarrow> \<not> first_with_key (accepted body) i"
    by (auto simp: first_with_key_def list_all_iff)
  from 1 2 3 candidate_accepts[of url0 u key] 5
    example_article_and_tracker example_article_and_tracker_all
    example_same_article_twice example_same_article_twice_all
    example_newsletter example_newsletter_all
  show ?thesis by (intro conjI)
qed

theorem extract_article_urls_first_seen_witness:
  "extract_article_urls MAX_URLS body_newsletter
     = Inr [''https://example.com/article?x=1'', ''https://news.example.org/story.html'',
            ''https://blog.example.net/post/1'']
   \<and> extract_article_urls MAX_URLS_ALL body_newsletter
     = Inr [''https://example.com/article?x=1'', ''https://news.example.org/story.html'']
   \<and> first_seen (accepted body_newsletter)
     = [''https://example.com/article?x=1'', ''https://news.example.org/story.html'',
        ''https://blog.example.net/post/1'', ''https://example.edu/fourth-article'']
   \<and> take 3 (first_seen (accepted body_newsletter))
     = [''https://example.com/article?x=1'', ''https://news.example.org/story.html'',
        ''https://blog.example.net/post/1'']
   \<and> take 2 (first_seen (accepted body_newsletter))
     = [''https://example.com/article?x=1'', ''https://news.example.org/story.html'']"
proof -
  have f: "first_seen (accepted body_newsletter)
     = [''https://example.com/article?x=1'', ''https://news.example.org/story.html'',
        ''https://blog.example.net/post/1'', ''https://example.edu/fourth-article'']"
    unfolding example_newsletter_accepted by code_simp
  have "extract_article_urls MAX_URLS body_newsletter
         = Inr [''https://example.com/article?x=1'', ''https://news.example.org/story.html'',
                ''https://blog.example.net/post/1'']
       \<longrightarrow> [''https://example.com/article?x=1'', ''https://news.example.org/story.html'',
            ''https://blog.example.net/post/1''] = take 3 (first_seen (accepted body_newsletter))"
    by (rule conjunct1[OF extract_article_urls_first_seen])
  from this example_newsletter
  have 3: "[''https://example.com/article?x=1'', ''https://news.example.org/story.html'',
        ''https://blog.example.net/post/1''] = take 3 (first_seen (accepted body_newsletter))"
    by (rule mp)
  have "extract_article_urls MAX_URLS_ALL body_newsletter
         = Inr [''https://example.com/article?x=1'', ''https://news.example.org/story.html'']
       \<longrightarrow> [''https://example.com/article?x=1'', ''https://news.example.org/story.html'']
           = take 2 (first_seen (accepted body_newsletter))"
    by (rule conjunct1[OF conjunct2[OF extract_article_urls_first_seen]])
  from this example_newsletter_all
  have 2: "[''https://example.com/article?x=1'', ''https://news.example.org/story.html'']
      = take 2 (first_seen (accepted body_newsletter))"
    by (rule mp)
  show ?thesis
    by (intro conjI) (rule example_newsletter example_newsletter_all f 3[symmetric] 2[symmetric])+
qed

text \<open>
  Claim C5, as stated, fails: the two URLs of this body share network location and path
  and differ in the query string; the first is rejected as a tracking URL for the word
  in its query string, and the second is the one returned.
\<close>

theorem first_seen_url_filtered_counterexample:
  "extract_article_urls MAX_URLS body_first_link_filtered = Inr [''https://example.com/article?y=2'']"
  by code_simp

section \<open>Mail reader\<close>







lemma example_from:
  "dict_get (collect_headers example_headers Map.empty) ''from'' [] = ''alice@example.com''"
  by code_simp

lemma example_subject:
  "dict_get (collect_headers example_headers Map.empty) ''subject'' [] = ''Hello''"
  by code_simp

lemma example_date:
  "dict_get (collect_headers example_headers Map.empty) ''date'' [] = ''Mon, 2 Nov 2026''"
  by code_simp








text \<open>
  Claim C10. In both variants the mail reader reads the first message of the thread
  only: dropping every later message from what the mail command returns changes no
  result, and when the thread has a first message the result is what reading that
  message alone gives (sender, subject, date, body and snippet).
\<close>

theorem only_first_message_read:
  "get_email_body (env\<lparr>json_loads := \<lambda>raw. map_option (take 1) (json_loads env raw)\<rparr>) thread_id
     = get_email_body env thread_id
   \<and> get_email_body_all (env\<lparr>json_loads := \<lambda>raw. map_option (take 1) (json_loads env raw)\<rparr>) thread_id
     = get_email_body_all env thread_id
   \<and> (\<forall>raw msg later. json_loads env raw = Some (msg # later) \<longrightarrow>
         read_thread env max_body raw
           = (case read_message (b64decode env) (html2text env) max_body msg of
                Inl e \<Rightarrow> Inl e
              | Inr email_data \<Rightarrow> Inr (Some email_data)))"
proof -
  have "read_thread (env\<lparr>json_loads := \<lambda>raw. map_option (take 1) (json_loads env raw)\<rparr>) mb raw
      = read_thread env mb raw" for mb raw
    by (simp add: read_thread_def split: option.splits list.splits)
  then show ?thesis
    by (simp add: get_email_body_def get_email_body_all_def run_gog_def read_thread_def
        split: sum.splits)
qed

theorem only_first_message_read_witness:
  "json_loads (example_env (Some [nested_message, reply_message]) reject_all) ''{}''
     = Some [nested_message, reply_message]
   \<and> get_email_body (example_env (Some [nested_message, reply_message]) reject_all) ''18c2f0a1b2c3d4e5''
     = Inr (Some \<lparr>e_from = ''alice@example.com'', e_subject = ''Hello'',
                  e_date = ''Mon, 2 Nov 2026'', e_body = ''hi'', e_snippet = ''hi''\<rparr>)
   \<and> get_email_body_all (example_env (Some [nested_message, reply_message]) reject_all) ''18c2f0a1b2c3d4e5''
     = Inr (Some \<lparr>e_from = ''alice@example.com'', e_subject = ''Hello'',
                  e_date = ''Mon, 2 Nov 2026'', e_body = ''hi'', e_snippet = ''hi''\<rparr>)"
proof -
  let ?env = "example_env (Some [nested_message, reply_message]) reject_all"
  have j: "json_loads ?env ''{}'' = Some (nested_message # [reply_message])"
    by (simp add: example_env_def)
  have r: "read_message (b64decode ?env) (html2text ?env) mb nested_message
      = Inr \<lparr>e_from = ''alice@example.com'', e_subject = ''Hello'',
             e_date = ''Mon, 2 Nov 2026'', e_body = take mb ''hi'', e_snippet = ''hi''\<rparr>" for mb
    by (simp add: read_message_def extract_body_def payload_bodies_def nested_message_def
        visit_part_def example_decode_def example_env_def
        example_from example_subject example_date Let_def)
  from only_first_message_read[of ?env "''18c2f0a1b2c3d4e5''"] j
  have "read_thread ?env mb ''{}''
      = (case read_message (b64decode ?env) (html2text ?env) mb nested_message of
           Inl e \<Rightarrow> Inl e | Inr email_data \<Rightarrow> Inr (Some email_data))" for mb
    by blast
  then have "read_thread ?env mb ''{}''
      = Inr (Some \<lparr>e_from = ''alice@example.com'', e_subject = ''Hello'',
             e_date = ''Mon, 2 Nov 2026'', e_body = take mb ''hi'', e_snippet = ''hi''\<rparr>)" for mb
    by (simp add: r)
  then show ?thesis
    by (simp add: get_email_body_def get_email_body_all_def run_gog_def example_env_def
        MAX_BODY_def MAX_BODY_ALL_def)
qed

section \<open>Summarizer and orchestrators\<close>

lemma call_gemini_logs:
  "tg_log (snd (call_gemini env prompt w)) = tg_log w"
  "read_log (snd (call_gemini env prompt w)) = read_log w"
  by (auto simp: call_gemini_def Let_def split: sum.splits option.splits list.splits prod.splits)

lemma call_deepseek_logs:
  "tg_log (snd (call_deepseek env prompt w)) = tg_log w"
  "read_log (snd (call_deepseek env prompt w)) = read_log w"
  by (auto simp: call_deepseek_def Let_def split: sum.splits option.splits list.splits prod.splits)

lemma call_ai_logs:
  "tg_log (snd (call_ai env prompt w)) = tg_log w"
  "read_log (snd (call_ai env prompt w)) = read_log w"
proof -
  obtain r w1 where g: "call_gemini env prompt w = (r, w1)" by (cases "call_gemini env prompt w")
  obtain r2 w2 where d: "call_deepseek env prompt w1 = (r2, w2)"
    by (cases "call_deepseek env prompt w1")
  have 1: "tg_log w1 = tg_log w" "read_log w1 = read_log w"
    using call_gemini_logs[of env prompt w] g by simp_all
  have 2: "tg_log w2 = tg_log w1" "read_log w2 = read_log w1"
    using call_deepseek_logs[of env prompt w1] d by simp_all
  show "tg_log (snd (call_ai env prompt w)) = tg_log w"
    and "read_log (snd (call_ai env prompt w)) = read_log w"
    by (simp_all add: call_ai_def g d 1 2)
qed

lemma call_ai_falsy: "\<not> truthy (fst (call_ai env prompt w)) \<Longrightarrow> fst (call_ai env prompt w) = None"
  by (auto simp: call_ai_def split: prod.splits if_splits)

lemma send_tg_read_log: "read_log (snd (send_tg tok post t w)) = read_log w"
  by (simp add: send_tg_def Let_def split: sum.splits)

lemma notification_logs:
  assumes "notification env lits email_data w = Inr (tg_txt, w1)"
  shows "tg_log w1 = tg_log w" and "read_log w1 = read_log w"
proof -
  from assms obtain urls where
    u: "extract_article_urls MAX_URLS (e_body email_data) = Inr urls"
    by (auto simp: notification_def split: sum.splits)
  let ?c = "call_ai env (build_summary_prompt lits email_data (fetch_articles env urls)) w"
  from assms u have w1: "w1 = snd ?c"
    by (cases ?c) (auto simp: notification_def Let_def split: if_splits option.splits)
  show "tg_log w1 = tg_log w" and "read_log w1 = read_log w"
    unfolding w1 by (rule call_ai_logs)+
qed

lemma mark_as_read_logs:
  "read_log (snd (mark_as_read env thread_id w)) = read_log w @ [thread_id]"
  "tg_log (snd (mark_as_read env thread_id w)) = tg_log w"
  by (simp_all add: mark_as_read_def Let_def split: sum.splits)

lemma call_gemini_no_result:
  assumes "gemini_key env = [] \<or> (\<exists>e. gemini_post env prompt = Inl e)
     \<or> (\<exists>status body. gemini_post env prompt = Inr (status, body)
           \<and> (400 \<le> status \<and> status < 600 \<or> body = None \<or> body = Some []
                \<or> (\<exists>others. body = Some ([] # others))
                \<or> (\<exists>later_parts others. body = Some (([] # later_parts) # others))))"
  shows "\<not> truthy (fst (call_gemini env prompt w))"
  using assms by (auto simp: call_gemini_def truthy_def Let_def split: if_splits)

lemma call_ai_fallback:
  assumes "\<not> truthy (fst (call_gemini env prompt w))"
  shows "call_ai env prompt w
     = (case call_deepseek env prompt (snd (call_gemini env prompt w)) of
          (result2, w2) \<Rightarrow> (if truthy result2 then result2 else None, w2))"
  using assms by (cases "call_gemini env prompt w") (auto simp: call_ai_def split: prod.splits)

lemma call_deepseek_logged:
  "deepseek_key env \<noteq> [] \<Longrightarrow> ai_log (snd (call_deepseek env prompt w)) = ai_log w @ [DeepSeek]"
  by (auto simp: call_deepseek_def Let_def split: sum.splits option.splits list.splits prod.splits)

lemma process_email_raw:
  assumes "meta_id email_meta \<notin> seen_ids"
    and "get_email_body env (meta_id email_meta) = Inr (Some email_data)"
    and "extract_article_urls MAX_URLS (e_body email_data) = Inr urls"
    and "\<not> truthy (fst (call_ai env
           (build_summary_prompt lits email_data (fetch_articles env urls)) w))"
  shows "notification env lits email_data w
      = Inr (raw_text lits email_data,
             snd (call_ai env (build_summary_prompt lits email_data (fetch_articles env urls)) w))"
    and "process_email env lits email_meta seen_ids w
      = (case send_tg (bot_token env) (telegram_post env) (raw_text lits email_data)
                (snd (call_ai env (build_summary_prompt lits email_data (fetch_articles env urls)) w)) of
           (ok, w2) \<Rightarrow>
             if ok then
               (case mark_as_read env (meta_id email_meta) w2 of
                  (Inl e, w3) \<Rightarrow> (Inl e, seen_ids, w3)
                | (Inr marked, w3) \<Rightarrow> (Inr True, insert (meta_id email_meta) seen_ids, w3))
             else (Inr True, insert (meta_id email_meta) seen_ids, w2))"
proof -
  let ?c = "call_ai env (build_summary_prompt lits email_data (fetch_articles env urls)) w"
  show n: "notification env lits email_data w = Inr (raw_text lits email_data, snd ?c)"
    using assms(3,4)
    by (cases ?c) (auto simp: notification_def Let_def truthy_def split: option.splits)
  show "process_email env lits email_meta seen_ids w
      = (case send_tg (bot_token env) (telegram_post env) (raw_text lits email_data) (snd ?c) of
           (ok, w2) \<Rightarrow>
             if ok then
               (case mark_as_read env (meta_id email_meta) w2 of
                  (Inl e, w3) \<Rightarrow> (Inl e, seen_ids, w3)
                | (Inr marked, w3) \<Rightarrow> (Inr True, insert (meta_id email_meta) seen_ids, w3))
             else (Inr True, insert (meta_id email_meta) seen_ids, w2))"
    using assms(1,2) by (simp add: process_email_def Let_def n)
qed

lemma process_email_tg_log:
  assumes "meta_id email_meta \<notin> seen_ids"
    and "get_email_body env (meta_id email_meta) = Inr (Some email_data)"
    and "notification env lits email_data w = Inr (tg_txt, w1)"
  shows "tg_log (snd (snd (process_email env lits email_meta seen_ids w)))
      = tg_log (snd (send_tg (bot_token env) (telegram_post env) tg_txt w1))"
proof -
  obtain ok w2 where s: "send_tg (bot_token env) (telegram_post env) tg_txt w1 = (ok, w2)"
    by (cases "send_tg (bot_token env) (telegram_post env) tg_txt w1")
  obtain r w3 where m: "mark_as_read env (meta_id email_meta) w2 = (r, w3)"
    by (cases "mark_as_read env (meta_id email_meta) w2")
  have "tg_log w3 = tg_log w2" using mark_as_read_logs(2)[of env "meta_id email_meta" w2] m by simp
  then show ?thesis
    using assms by (cases r) (simp_all add: process_email_def Let_def s m)
qed

text \<open>
  Claim C6. When the primary provider gives no result (no key, an exception of the
  request, an error status, a body that does not parse or holds no candidate, no part or
  an empty text), the summarizer calls the fallback provider and returns its result, or
  empty when that is empty too; with a fallback key configured the request to the
  fallback provider is posted after the call of the primary one. When the summarizer
  returns empty, the per-message orchestrator goes on: it hands the raw-snippet
  notification to the notifier, which posts it when a bot token is configured, and ends
  as after any notification. The raw-snippet notification is the heading, the sender,
  the subject, an empty line and the first 500 characters of the snippet.
\<close>

theorem summarizer_falls_back_and_raw_snippet_sent:
  "(gemini_key env = [] \<or> (\<exists>e. gemini_post env prompt = Inl e)
     \<or> (\<exists>status body. gemini_post env prompt = Inr (status, body)
           \<and> (400 \<le> status \<and> status < 600 \<or> body = None \<or> body = Some []
                \<or> (\<exists>others. body = Some ([] # others))
                \<or> (\<exists>later_parts others. body = Some (([] # later_parts) # others))))
     \<longrightarrow> \<not> truthy (fst (call_gemini env prompt w)))
   \<and> (\<not> truthy (fst (call_gemini env prompt w)) \<longrightarrow>
        call_ai env prompt w
          = (case call_deepseek env prompt (snd (call_gemini env prompt w)) of
               (result2, w2) \<Rightarrow> (if truthy result2 then result2 else None, w2))
        \<and> (deepseek_key env \<noteq> [] \<longrightarrow>
             ai_log (snd (call_ai env prompt w))
               = ai_log (snd (call_gemini env prompt w)) @ [DeepSeek]))
   \<and> raw_text lits email_data
        = lit_raw_head lits @ e_from email_data @ [NL]
            @ lit_raw_subject lits @ e_subject email_data @ [NL, NL]
            @ take 500 (e_snippet email_data)
   \<and> (meta_id email_meta \<notin> seen_ids
        \<and> get_email_body env (meta_id email_meta) = Inr (Some email_data)
        \<and> extract_article_urls MAX_URLS (e_body email_data) = Inr urls
        \<and> \<not> truthy (fst (call_ai env
               (build_summary_prompt lits email_data (fetch_articles env urls)) w))
      \<longrightarrow>
        process_email env lits email_meta seen_ids w
          = (case send_tg (bot_token env) (telegram_post env) (raw_text lits email_data)
                    (snd (call_ai env
                       (build_summary_prompt lits email_data (fetch_articles env urls)) w)) of
               (ok, w2) \<Rightarrow>
                 if ok then
                   (case mark_as_read env (meta_id email_meta) w2 of
                      (Inl e, w3) \<Rightarrow> (Inl e, seen_ids, w3)
                    | (Inr marked, w3) \<Rightarrow> (Inr True, insert (meta_id email_meta) seen_ids, w3))
                 else (Inr True, insert (meta_id email_meta) seen_ids, w2))
        \<and> (bot_token env \<noteq> [] \<longrightarrow>
             \<lparr>tg_text = (if 4000 < length (raw_text lits email_data)
                          then take 3997 (raw_text lits email_data) @ ''...''
                          else raw_text lits email_data),
              tg_parse_mode = Some ''HTML''\<rparr>
               \<in> set (tg_log (snd (snd (process_email env lits email_meta seen_ids w))))))"
proof (intro conjI impI)
  show "raw_text lits email_data
        = lit_raw_head lits @ e_from email_data @ [NL]
            @ lit_raw_subject lits @ e_subject email_data @ [NL, NL]
            @ take 500 (e_snippet email_data)"
    by (simp add: raw_text_def)
next
  assume "gemini_key env = [] \<or> (\<exists>e. gemini_post env prompt = Inl e)
     \<or> (\<exists>status body. gemini_post env prompt = Inr (status, body)
           \<and> (400 \<le> status \<and> status < 600 \<or> body = None \<or> body = Some []
                \<or> (\<exists>others. body = Some ([] # others))
                \<or> (\<exists>later_parts others. body = Some (([] # later_parts) # others))))"
  then show "\<not> truthy (fst (call_gemini env prompt w))" by (rule call_gemini_no_result)
next
  assume "\<not> truthy (fst (call_gemini env prompt w))"
  then show "call_ai env prompt w
          = (case call_deepseek env prompt (snd (call_gemini env prompt w)) of
               (result2, w2) \<Rightarrow> (if truthy result2 then result2 else None, w2))"
    by (rule call_ai_fallback)
next
  assume g: "\<not> truthy (fst (call_gemini env prompt w))" and k: "deepseek_key env \<noteq> []"
  show "ai_log (snd (call_ai env prompt w)) = ai_log (snd (call_gemini env prompt w)) @ [DeepSeek]"
    using call_deepseek_logged[OF k, of prompt "snd (call_gemini env prompt w)"]
    by (auto simp: call_ai_fallback[OF g] split: prod.splits)
next
  assume a: "meta_id email_meta \<notin> seen_ids
        \<and> get_email_body env (meta_id email_meta) = Inr (Some email_data)
        \<and> extract_article_urls MAX_URLS (e_body email_data) = Inr urls
        \<and> \<not> truthy (fst (call_ai env
               (build_summary_prompt lits email_data (fetch_articles env urls)) w))"
  then show "process_email env lits email_meta seen_ids w
          = (case send_tg (bot_token env) (telegram_post env) (raw_text lits email_data)
                    (snd (call_ai env
                       (build_summary_prompt lits email_data (fetch_articles env urls)) w)) of
               (ok, w2) \<Rightarrow>
                 if ok then
                   (case mark_as_read env (meta_id email_meta) w2 of
                      (Inl e, w3) \<Rightarrow> (Inl e, seen_ids, w3)
                    | (Inr marked, w3) \<Rightarrow> (Inr True, insert (meta_id email_meta) seen_ids, w3))
                 else (Inr True, insert (meta_id email_meta) seen_ids, w2))"
    using process_email_raw(2) by blast
next
  let ?w1 = "snd (call_ai env (build_summary_prompt lits email_data (fetch_articles env urls)) w)"
  assume a: "meta_id email_meta \<notin> seen_ids
        \<and> get_email_body env (meta_id email_meta) = Inr (Some email_data)
        \<and> extract_article_urls MAX_URLS (e_body email_data) = Inr urls
        \<and> \<not> truthy (fst (call_ai env
               (build_summary_prompt lits email_data (fetch_articles env urls)) w))"
    and tok: "bot_token env \<noteq> []"
  then have n: "notification env lits email_data w = Inr (raw_text lits email_data, ?w1)"
    using process_email_raw(1) by blast
  have "tg_log (snd (snd (process_email env lits email_meta seen_ids w)))
      = tg_log (snd (send_tg (bot_token env) (telegram_post env) (raw_text lits email_data) ?w1))"
    using process_email_tg_log[OF _ _ n] a by blast
  then show "\<lparr>tg_text = (if 4000 < length (raw_text lits email_data)
                          then take 3997 (raw_text lits email_data) @ ''...''
                          else raw_text lits email_data),
              tg_parse_mode = Some ''HTML''\<rparr>
               \<in> set (tg_log (snd (snd (process_email env lits email_meta seen_ids w))))"
    by (simp add: send_tg_log[OF tok] Let_def split: sum.splits)
qed

lemma plain_message_read:
  assumes "gog env [''gmail'', ''thread'', ''18c2f0a1b2c3d4e5'', ''--account'', account env,
                    ''--json'', ''--results-only''] = Inr (returncode, raw)"
    and "json_loads env raw = Some [plain_message]"
  shows "get_email_body env ''18c2f0a1b2c3d4e5'' = Inr (Some plain_email)"
  using assms
  by (simp add: get_email_body_def run_gog_def read_thread_def read_message_def
      extract_body_def payload_bodies_def plain_message_def example_from example_subject
      example_date plain_email_def Let_def)

lemma cli_mark:
  assumes "gog env [''gmail'', ''thread'', ''modify'', thread_id, ''--remove'', ''UNREAD'',
                    ''--account'', account env, ''--force''] = Inr (returncode, out)"
  shows "mark_as_read env thread_id w = (Inr True, w\<lparr>read_log := read_log w @ [thread_id]\<rparr>)"
  using assms by (simp add: mark_as_read_def run_gog_def Let_def)

lemma example_plain_read:
  "get_email_body (example_env (Some [plain_message]) tg) ''18c2f0a1b2c3d4e5'' = Inr (Some plain_email)"
  by (rule plain_message_read[where returncode = 0 and raw = "''{}''"])
    (simp_all add: example_env_def)

lemma example_no_urls: "extract_article_urls MAX_URLS (e_body plain_email) = Inr []"
  by (simp add: extract_article_urls_def plain_email_def findall_urls.simps[of "[]"])

lemma example_no_summary:
  "call_ai (example_env msgs tg) prompt w = (None, w)"
  by (simp add: call_ai_def call_gemini_def call_deepseek_def example_env_def truthy_def)

lemma example_raw_text:
  "raw_text example_literals plain_email
     = ''[mail] new mail'' @ NL # ''From: alice@example.com'' @ NL # ''Subject: Hello'' @ [NL, NL]
         @ ''hello there''"
  by (simp add: raw_text_def example_literals_def plain_email_def)

lemma accepted_send:
  "send_tg ''token'' accept_all (raw_text example_literals plain_email) w
     = (True, w\<lparr>tg_log := tg_log w @ [\<lparr>tg_text = raw_text example_literals plain_email,
                                         tg_parse_mode = Some ''HTML''\<rparr>]\<rparr>)"
proof -
  have "\<not> 4000 < length (raw_text example_literals plain_email)"
    by (simp add: example_raw_text)
  then show ?thesis
    by (simp add: send_tg_def accept_all_def Let_def)
qed

lemma example_accepted_send:
  "send_tg (bot_token (example_env msgs accept_all)) (telegram_post (example_env msgs accept_all))
       (raw_text example_literals plain_email) world0
     = (True, world0\<lparr>tg_log := [\<lparr>tg_text = raw_text example_literals plain_email,
                                  tg_parse_mode = Some ''HTML''\<rparr>]\<rparr>)"
proof -
  have "bot_token (example_env msgs accept_all) = ''token''"
    and "telegram_post (example_env msgs accept_all) = accept_all"
    by (simp_all add: example_env_def)
  then show ?thesis by (simp add: accepted_send world0_def)
qed

lemma example_mark:
  "mark_as_read (example_env msgs tg) ''18c2f0a1b2c3d4e5'' w
     = (Inr True, w\<lparr>read_log := read_log w @ [''18c2f0a1b2c3d4e5'']\<rparr>)"
  by (rule cli_mark[where returncode = 0 and out = "''{}''"]) (simp add: example_env_def)

lemma providers_fields:
  "gog (with_providers g d (example_env msgs tg)) = (\<lambda>args. Inr (0, ''{}''))"
  "json_loads (with_providers g d (example_env msgs tg)) = (\<lambda>raw. msgs)"
  "bot_token (with_providers g d (example_env msgs tg)) = ''token''"
  "telegram_post (with_providers g d (example_env msgs tg)) = tg"
  "gemini_key (with_providers g d (example_env msgs tg)) = ''gemini-key''"
  "deepseek_key (with_providers g d (example_env msgs tg)) = ''deepseek-key''"
  "gemini_post (with_providers g d (example_env msgs tg)) = (\<lambda>prompt. g)"
  "deepseek_post (with_providers g d (example_env msgs tg)) = (\<lambda>prompt. d)"
  by (simp_all add: with_providers_def example_env_def)

lemma providers_plain_read:
  "get_email_body (with_providers g d (example_env (Some [plain_message]) tg)) ''18c2f0a1b2c3d4e5''
     = Inr (Some plain_email)"
  by (rule plain_message_read[where returncode = 0 and raw = "''{}''"])
    (simp_all add: providers_fields)

lemma providers_mark:
  "mark_as_read (with_providers g d (example_env msgs tg)) ''18c2f0a1b2c3d4e5'' w
     = (Inr True, w\<lparr>read_log := read_log w @ [''18c2f0a1b2c3d4e5'']\<rparr>)"
  by (rule cli_mark[where returncode = 0 and out = "''{}''"]) (simp add: providers_fields)

lemma providers_both_empty:
  "call_ai (with_providers (Inr (503, None)) (Inr (200, Some [''''])) (example_env msgs tg))
       prompt world0
     = (None, \<lparr>tg_log = [], ai_log = [Gemini, DeepSeek], read_log = []\<rparr>)"
  by (simp add: call_ai_def call_gemini_def call_deepseek_def providers_fields truthy_def
      world0_def Let_def)

lemma providers_fallback_answers:
  "call_ai (with_providers (Inl RequestError) (Inr (200, Some [''A summary'']))
        (example_env msgs tg)) prompt world0
     = (Some ''A summary'', \<lparr>tg_log = [], ai_log = [Gemini, DeepSeek], read_log = []\<rparr>)"
  by (simp add: call_ai_def call_gemini_def call_deepseek_def providers_fields truthy_def
      world0_def Let_def)

theorem summarizer_falls_back_and_raw_snippet_sent_witness:
  "gemini_post (with_providers (Inr (503, None)) (Inr (200, Some ['''']))
        (example_env (Some [plain_message]) accept_all))
      (build_summary_prompt example_literals plain_email []) = Inr (503, None)
   \<and> \<not> truthy (fst (call_gemini (with_providers (Inr (503, None)) (Inr (200, Some ['''']))
        (example_env (Some [plain_message]) accept_all))
      (build_summary_prompt example_literals plain_email []) world0))
   \<and> call_ai (with_providers (Inr (503, None)) (Inr (200, Some ['''']))
        (example_env (Some [plain_message]) accept_all))
      (build_summary_prompt example_literals plain_email []) world0
       = (None, \<lparr>tg_log = [], ai_log = [Gemini, DeepSeek], read_log = []\<rparr>)
   \<and> process_email (with_providers (Inr (503, None)) (Inr (200, Some ['''']))
        (example_env (Some [plain_message]) accept_all)) example_literals example_meta {} world0
       = (Inr True, {''18c2f0a1b2c3d4e5''},
          \<lparr>tg_log = [\<lparr>tg_text = ''[mail] new mail'' @ NL # ''From: alice@example.com'' @ NL
                          # ''Subject: Hello'' @ [NL, NL] @ ''hello there'',
                       tg_parse_mode = Some ''HTML''\<rparr>],
           ai_log = [Gemini, DeepSeek],
           read_log = [''18c2f0a1b2c3d4e5'']\<rparr>)
   \<and> call_ai (with_providers (Inl RequestError) (Inr (200, Some [''A summary'']))
        (example_env (Some [plain_message]) accept_all))
      (build_summary_prompt example_literals plain_email []) world0
       = (Some ''A summary'', \<lparr>tg_log = [], ai_log = [Gemini, DeepSeek], read_log = []\<rparr>)
   \<and> call_ai (example_env (Some [plain_message]) accept_all)
        (build_summary_prompt example_literals plain_email []) world0 = (None, world0)"
proof -
  let ?env = "with_providers (Inr (503, None)) (Inr (200, Some ['''']))
        (example_env (Some [plain_message]) accept_all)"
  let ?prompt = "build_summary_prompt example_literals plain_email (fetch_articles ?env [])"
  let ?w1 = "\<lparr>tg_log = [], ai_log = [Gemini, DeepSeek], read_log = []\<rparr>"
  have p: "gemini_post ?env ?prompt = Inr (503, None)" by (simp add: providers_fields)
  have k: "deepseek_key ?env \<noteq> []" by (simp add: providers_fields)
  have h: "meta_id example_meta \<notin> {}
        \<and> get_email_body ?env (meta_id example_meta) = Inr (Some plain_email)
        \<and> extract_article_urls MAX_URLS (e_body plain_email) = Inr []
        \<and> \<not> truthy (fst (call_ai ?env ?prompt world0))"
    using providers_plain_read example_no_urls
    by (simp add: providers_both_empty truthy_def example_meta_def)
  have c: "snd (call_ai ?env ?prompt world0) = ?w1" by (simp add: providers_both_empty)
  have i: "meta_id example_meta = ''18c2f0a1b2c3d4e5''" by (simp add: example_meta_def)
  have t: "bot_token ?env = ''token''" "telegram_post ?env = accept_all"
    by (simp_all add: providers_fields)
  note inst = summarizer_falls_back_and_raw_snippet_sent[of ?env ?prompt world0 example_literals
      plain_email example_meta "{}" "[]"]
  from inst p have g: "\<not> truthy (fst (call_gemini ?env ?prompt world0))" by blast
  from inst g k have a: "ai_log (snd (call_ai ?env ?prompt world0))
      = ai_log (snd (call_gemini ?env ?prompt world0)) @ [DeepSeek]" by blast
  from inst h
  have "process_email ?env example_literals example_meta {} world0
      = (case send_tg (bot_token ?env) (telegram_post ?env) (raw_text example_literals plain_email)
                (snd (call_ai ?env ?prompt world0)) of
           (ok, w2) \<Rightarrow>
             if ok then
               (case mark_as_read ?env (meta_id example_meta) w2 of
                  (Inl e, w3) \<Rightarrow> (Inl e, {}, w3)
                | (Inr marked, w3) \<Rightarrow> (Inr True, insert (meta_id example_meta) {}, w3))
             else (Inr True, insert (meta_id example_meta) {}, w2))"
    by blast
  then have "process_email ?env example_literals example_meta {} world0
       = (Inr True, {''18c2f0a1b2c3d4e5''},
          \<lparr>tg_log = [\<lparr>tg_text = ''[mail] new mail'' @ NL # ''From: alice@example.com'' @ NL
                          # ''Subject: Hello'' @ [NL, NL] @ ''hello there'',
                       tg_parse_mode = Some ''HTML''\<rparr>],
           ai_log = [Gemini, DeepSeek],
           read_log = [''18c2f0a1b2c3d4e5'']\<rparr>)"
    unfolding c i t accepted_send providers_mark by (simp add: example_raw_text)
  with p g show ?thesis
    by (simp add: providers_both_empty providers_fallback_answers example_no_summary)
qed

text \<open>
  Claim C1, as amended. For a message that is not yet seen, that the mail reader could
  read and for which a notification was built: when \<open>send_tg\<close> reports failure, the
  read state of the thread is left untouched and the identifier is added to the seen-id
  set all the same; when \<open>send_tg\<close> reports success, the command that marks the thread
  read is issued and the identifier is added to the seen-id set (unless that command
  times out). In every case the read log grows only after a \<open>send_tg\<close> that reported
  success. A message whose identifier is in the seen-id set is not processed: the call
  returns at once and changes nothing.
\<close>

theorem read_state_gated_seen_id_always_added:
  "(meta_id email_meta \<notin> seen_ids
      \<and> get_email_body env (meta_id email_meta) = Inr (Some email_data)
      \<and> notification env lits email_data w = Inr (tg_txt, w1)
      \<and> send_tg (bot_token env) (telegram_post env) tg_txt w1 = (ok, w2)
    \<longrightarrow>
      (\<not> ok \<longrightarrow>
         process_email env lits email_meta seen_ids w
           = (Inr True, insert (meta_id email_meta) seen_ids, w2)
         \<and> read_log w2 = read_log w)
      \<and> (ok \<longrightarrow>
         process_email env lits email_meta seen_ids w
           = (case mark_as_read env (meta_id email_meta) w2 of
                (Inl e, w3) \<Rightarrow> (Inl e, seen_ids, w3)
              | (Inr marked, w3) \<Rightarrow> (Inr True, insert (meta_id email_meta) seen_ids, w3))
         \<and> read_log (snd (mark_as_read env (meta_id email_meta) w2))
             = read_log w @ [meta_id email_meta]))
   \<and> (read_log (snd (snd (process_email env lits email_meta seen_ids w))) \<noteq> read_log w
        \<longrightarrow> (\<exists>email_data tg_txt w1.
               get_email_body env (meta_id email_meta) = Inr (Some email_data)
               \<and> notification env lits email_data w = Inr (tg_txt, w1)
               \<and> fst (send_tg (bot_token env) (telegram_post env) tg_txt w1)))
   \<and> (meta_id email_meta \<in> seen_ids
        \<longrightarrow> process_email env lits email_meta seen_ids w = (Inr False, seen_ids, w))"
proof (intro conjI impI)
  assume a: "meta_id email_meta \<notin> seen_ids
      \<and> get_email_body env (meta_id email_meta) = Inr (Some email_data)
      \<and> notification env lits email_data w = Inr (tg_txt, w1)
      \<and> send_tg (bot_token env) (telegram_post env) tg_txt w1 = (ok, w2)"
  have r2: "read_log w2 = read_log w"
    using a send_tg_read_log[of "bot_token env" "telegram_post env" tg_txt w1]
      notification_logs(2)[of env lits email_data w tg_txt w1] by simp
  {
    assume "\<not> ok"
    with a show "process_email env lits email_meta seen_ids w
           = (Inr True, insert (meta_id email_meta) seen_ids, w2)"
      by (simp add: process_email_def Let_def)
    show "read_log w2 = read_log w" by (rule r2)
  }
  {
    assume "ok"
    with a show "process_email env lits email_meta seen_ids w
           = (case mark_as_read env (meta_id email_meta) w2 of
                (Inl e, w3) \<Rightarrow> (Inl e, seen_ids, w3)
              | (Inr marked, w3) \<Rightarrow> (Inr True, insert (meta_id email_meta) seen_ids, w3))"
      by (simp add: process_email_def Let_def)
    show "read_log (snd (mark_as_read env (meta_id email_meta) w2))
             = read_log w @ [meta_id email_meta]"
      by (simp add: mark_as_read_logs r2)
  }
next
  assume ch: "read_log (snd (snd (process_email env lits email_meta seen_ids w))) \<noteq> read_log w"
  show "\<exists>email_data tg_txt w1.
               get_email_body env (meta_id email_meta) = Inr (Some email_data)
               \<and> notification env lits email_data w = Inr (tg_txt, w1)
               \<and> fst (send_tg (bot_token env) (telegram_post env) tg_txt w1)"
  proof (rule ccontr)
    assume neg: "\<not> (\<exists>email_data tg_txt w1.
               get_email_body env (meta_id email_meta) = Inr (Some email_data)
               \<and> notification env lits email_data w = Inr (tg_txt, w1)
               \<and> fst (send_tg (bot_token env) (telegram_post env) tg_txt w1))"
    have "read_log (snd (snd (process_email env lits email_meta seen_ids w))) = read_log w"
    proof (cases "meta_id email_meta \<in> seen_ids")
      case True
      then show ?thesis by (simp add: process_email_def)
    next
      case unseen: False
      show ?thesis
      proof (cases "get_email_body env (meta_id email_meta)")
        case (Inl e)
        with unseen show ?thesis by (simp add: process_email_def)
      next
        case (Inr v)
        show ?thesis
        proof (cases v)
          case None
          with Inr unseen show ?thesis by (simp add: process_email_def)
        next
          case (Some ed)
          show ?thesis
          proof (cases "notification env lits ed w")
            case (Inl e)
            with Inr Some unseen show ?thesis by (simp add: process_email_def)
          next
            case n: (Inr tw)
            obtain t w1 where tw: "tw = (t, w1)" by (cases tw)
            obtain ok w2 where s: "send_tg (bot_token env) (telegram_post env) t w1 = (ok, w2)"
              by (cases "send_tg (bot_token env) (telegram_post env) t w1")
            from neg Inr Some n tw s have "\<not> ok" by auto
            moreover have "read_log w2 = read_log w"
              using s send_tg_read_log[of "bot_token env" "telegram_post env" t w1]
                notification_logs(2)[of env lits ed w t w1] n tw by simp
            ultimately show ?thesis
              using Inr Some unseen n tw s by (simp add: process_email_def)
          qed
        qed
      qed
    qed
    with ch show False by simp
  qed
next
  assume "meta_id email_meta \<in> seen_ids"
  then show "process_email env lits email_meta seen_ids w = (Inr False, seen_ids, w)"
    by (simp add: process_email_def)
qed

theorem read_state_gated_seen_id_always_added_witness:
  "send_tg (bot_token (example_env (Some [plain_message]) accept_all))
       (telegram_post (example_env (Some [plain_message]) accept_all))
       (raw_text example_literals plain_email) world0
     = (True, world0\<lparr>tg_log := [\<lparr>tg_text = raw_text example_literals plain_email,
                                  tg_parse_mode = Some ''HTML''\<rparr>]\<rparr>)
   \<and> process_email (example_env (Some [plain_message]) accept_all) example_literals example_meta
        {} world0
       = (Inr True, {''18c2f0a1b2c3d4e5''},
          world0\<lparr>tg_log := [\<lparr>tg_text = raw_text example_literals plain_email,
                               tg_parse_mode = Some ''HTML''\<rparr>],
                 read_log := [''18c2f0a1b2c3d4e5'']\<rparr>)"
proof -
  let ?env = "example_env (Some [plain_message]) accept_all"
  let ?w2 = "world0\<lparr>tg_log := [\<lparr>tg_text = raw_text example_literals plain_email,
                                  tg_parse_mode = Some ''HTML''\<rparr>]\<rparr>"
  have n: "notification ?env example_literals plain_email world0
      = Inr (raw_text example_literals plain_email, world0)"
    by (simp add: notification_def example_no_urls example_no_summary)
  have i: "meta_id example_meta = ''18c2f0a1b2c3d4e5''" by (simp add: example_meta_def)
  have h: "meta_id example_meta \<notin> {}
      \<and> get_email_body ?env (meta_id example_meta) = Inr (Some plain_email)
      \<and> notification ?env example_literals plain_email world0
          = Inr (raw_text example_literals plain_email, world0)
      \<and> send_tg (bot_token ?env) (telegram_post ?env) (raw_text example_literals plain_email)
          world0 = (True, ?w2)"
    using example_plain_read n example_accepted_send by (simp add: example_meta_def)
  from read_state_gated_seen_id_always_added[of example_meta "{}" ?env plain_email
      example_literals world0 "raw_text example_literals plain_email" world0 True ?w2] h
  have "process_email ?env example_literals example_meta {} world0
      = (case mark_as_read ?env (meta_id example_meta) ?w2 of
           (Inl e, w3) \<Rightarrow> (Inl e, {}, w3)
         | (Inr marked, w3) \<Rightarrow> (Inr True, insert (meta_id example_meta) {}, w3))"
    by blast
  then have "process_email ?env example_literals example_meta {} world0
       = (Inr True, {''18c2f0a1b2c3d4e5''},
          world0\<lparr>tg_log := [\<lparr>tg_text = raw_text example_literals plain_email,
                               tg_parse_mode = Some ''HTML''\<rparr>],
                 read_log := [''18c2f0a1b2c3d4e5'']\<rparr>)"
    unfolding i example_mark by (simp add: world0_def)
  with example_accepted_send show ?thesis by simp
qed

text \<open>
  Claim C1, as stated, fails. The chat endpoint rejects both requests, so \<open>send_tg\<close>
  reports failure; the thread is not marked read, but the identifier is in the seen-id
  set after the call, and a second call with that set does nothing: the message is not
  retried.
\<close>

theorem failed_delivery_marked_seen_counterexample:
  "fst (send_tg (bot_token (example_env (Some [plain_message]) reject_all))
       (telegram_post (example_env (Some [plain_message]) reject_all))
       (raw_text example_literals plain_email) world0) = False
   \<and> process_email (example_env (Some [plain_message]) reject_all) example_literals example_meta
        {} world0
       = (Inr True, {''18c2f0a1b2c3d4e5''},
          world0\<lparr>tg_log := [\<lparr>tg_text = raw_text example_literals plain_email,
                               tg_parse_mode = Some ''HTML''\<rparr>,
                              \<lparr>tg_text = raw_text example_literals plain_email,
                               tg_parse_mode = None\<rparr>]\<rparr>)
   \<and> process_email (example_env (Some [plain_message]) reject_all) example_literals example_meta
        {''18c2f0a1b2c3d4e5''} world0
       = (Inr False, {''18c2f0a1b2c3d4e5''}, world0)"
proof -
  let ?env = "example_env (Some [plain_message]) reject_all"
  have short: "\<not> 4000 < length (raw_text example_literals plain_email)"
    by (simp add: example_raw_text)
  have n: "notification ?env example_literals plain_email world0
      = Inr (raw_text example_literals plain_email, world0)"
    by (simp add: notification_def example_no_urls example_no_summary)
  have s: "send_tg (bot_token ?env) (telegram_post ?env) (raw_text example_literals plain_email)
      world0 = (False, world0\<lparr>tg_log := [\<lparr>tg_text = raw_text example_literals plain_email,
                               tg_parse_mode = Some ''HTML''\<rparr>,
                              \<lparr>tg_text = raw_text example_literals plain_email,
                               tg_parse_mode = None\<rparr>]\<rparr>)"
    using short by (simp add: send_tg_def example_env_def reject_all_def world0_def Let_def)
  have 1: "process_email ?env example_literals example_meta {} world0
       = (Inr True, {''18c2f0a1b2c3d4e5''},
          world0\<lparr>tg_log := [\<lparr>tg_text = raw_text example_literals plain_email,
                               tg_parse_mode = Some ''HTML''\<rparr>,
                              \<lparr>tg_text = raw_text example_literals plain_email,
                               tg_parse_mode = None\<rparr>]\<rparr>)"
    using example_plain_read[of reject_all]
    by (simp add: process_email_def example_meta_def n s Let_def)
  have 2: "process_email ?env example_literals example_meta {''18c2f0a1b2c3d4e5''} world0
       = (Inr False, {''18c2f0a1b2c3d4e5''}, world0)"
    by (simp add: process_email_def example_meta_def)
  from s 1 2 show ?thesis by simp
qed






section \<open>Delivery of the all-at-once variant\<close>

lemma send_tg_all_long:
  assumes "4000 < length t" and "\<forall>req. \<exists>status. post req = Inr status"
  shows "send_tg_all post t w
     = (Inr True, w\<lparr>tg_log := tg_log w
          @ map (\<lambda>p. \<lparr>tg_text = p, tg_parse_mode = None\<rparr>) (split_parts t)\<rparr>)"
  using assms by (simp add: send_tg_all_def post_parts_all)

lemma mark_all_read_example:
  "mark_all_read (example_env msgs tg) ids w = (Inr (), w\<lparr>read_log := read_log w @ ids\<rparr>)"
proof (induction ids arbitrary: w)
  case Nil
  then show ?case by simp
next
  case (Cons i ids)
  have "mark_as_read (example_env msgs tg) i w = (Inr True, w\<lparr>read_log := read_log w @ [i]\<rparr>)"
    by (simp add: mark_as_read_def run_gog_def example_env_def Let_def)
  then show ?case by (simp add: Cons)
qed

text \<open>
  Claim C2 on the code: a digest longer than 4000 characters is posted in parts, the
  chat endpoint rejects every part with status 400, and \<open>send_tg\<close> still reports
  success, so both threads are marked read. A short text that is rejected is reported
  as a failure.
\<close>

theorem rejected_chunks_reported_as_success:
  "fst (send_tg_all reject_all payload_9000 world0) = Inr True
   \<and> fst (deliver_digest (example_env None reject_all) example_literals_all (Some payload_9000)
            [''18c2f0a1b2c3d4e5'', ''18c2f0a1b2c3d4e6''] world0) = Inr ()
   \<and> read_log (snd (deliver_digest (example_env None reject_all) example_literals_all
            (Some payload_9000) [''18c2f0a1b2c3d4e5'', ''18c2f0a1b2c3d4e6''] world0))
       = [''18c2f0a1b2c3d4e5'', ''18c2f0a1b2c3d4e6'']
   \<and> fst (send_tg_all reject_all ''short digest'' world0) = Inr False"
proof -
  have r: "\<forall>req. \<exists>status. reject_all req = Inr status" by (simp add: reject_all_def)
  have l: "4000 < length payload_9000" by (simp add: payload_9000_def)
  have 1: "fst (send_tg_all reject_all payload_9000 world0) = Inr True"
    by (simp add: send_tg_all_long[OF l r])
  let ?full = "lit_digest_head example_literals_all
      @ str_nat (length [''18c2f0a1b2c3d4e5'', ''18c2f0a1b2c3d4e6''])
      @ lit_digest_count example_literals_all
      @ concat (replicate 30 (lit_rule example_literals_all)) @ [NL, NL] @ payload_9000"
  have lf: "4000 < length ?full" using l by simp
  have t: "telegram_post (example_env None reject_all) = reject_all" by (simp add: example_env_def)
  have p: "payload_9000 \<noteq> []" using l by auto
  have d: "deliver_digest (example_env None reject_all) example_literals_all (Some payload_9000)
            [''18c2f0a1b2c3d4e5'', ''18c2f0a1b2c3d4e6''] world0
      = mark_all_read (example_env None reject_all) [''18c2f0a1b2c3d4e5'', ''18c2f0a1b2c3d4e6'']
          (world0\<lparr>tg_log := tg_log world0
             @ map (\<lambda>p. \<lparr>tg_text = p, tg_parse_mode = None\<rparr>) (split_parts ?full)\<rparr>)"
    unfolding deliver_digest_def t using p send_tg_all_long[OF lf r, of world0]
    by (simp add: Let_def del: mark_all_read.simps)
  have 4: "fst (send_tg_all reject_all ''short digest'' world0) = Inr False"
    by (simp add: send_tg_all_def reject_all_def Let_def)
  show ?thesis
    unfolding d mark_all_read_example using 1 4 by (simp add: world0_def)
qed

end
